theory Spec2Isabelle
  imports Main "HOL-Library.Word"
begin

unbundle bit_operations_syntax

section \<open>Common types\<close>

text \<open>
  The repository is a Go program. A Go \<^verbatim>\<open>string\<close> is a byte sequence and is
  modelled as \<^typ>\<open>string\<close>; a \<^verbatim>\<open>byte\<close> is an 8-bit word. A Go \<^verbatim>\<open>error\<close> is
  modelled by its message, so \<^verbatim>\<open>(T, error)\<close> becomes \<open>string + T\<close> with \<open>Inl\<close>
  the message of the error. Run-time panics are values of their own.
\<close>

type_synonym byte = "8 word"

datatype panic = IndexOutOfRange | NilDereference | TypeAssertion

section \<open>The inclusion filter\<close>

text \<open>
  \<^verbatim>\<open>filepath.Ext\<close> of the Go standard library, for the separator \<^verbatim>\<open>/\<close>: it scans the
  path from its last byte towards the first, stops at a separator, and returns the
  suffix that starts at the first dot it meets (the last dot of the final element), or
  the empty string. \<open>Ext_scan\<close> is the loop, run on the reversed path with the suffix
  already passed as the accumulator.
\<close>

fun Ext_scan :: "string \<Rightarrow> string \<Rightarrow> string" where
  "Ext_scan [] acc = []"
| "Ext_scan (c # cs) acc =
     (if c = CHR ''/'' then []
      else if c = CHR ''.'' then c # acc
      else Ext_scan cs (c # acc))"

definition Ext :: "string \<Rightarrow> string" where
  "Ext path = Ext_scan (rev path) []"

text \<open>
  \<^verbatim>\<open>checkShouldIncludeFile\<close> (preprocessor/folder/file.go). The configured allow-list
  \<^verbatim>\<open>config.GetConfig().FolderPreprocessor.FileExtensions\<close> is the first argument, the
  name \<^verbatim>\<open>info.Name()\<close> the second. \<^verbatim>\<open>fileName[0]\<close> panics on the empty name.
\<close>

definition checkShouldIncludeFile :: "string list \<Rightarrow> string \<Rightarrow> panic + bool" where
  "checkShouldIncludeFile whiteListExtension fileName =
     (case fileName of
        [] \<Rightarrow> Inl IndexOutOfRange
      | c # _ \<Rightarrow>
          if c = CHR ''.'' then Inr False
          else let fileExt = Ext fileName in
            if fileExt = ''.partial'' then Inr False
            else if fileExt \<in> set whiteListExtension then Inr True
            else Inr False)"

text \<open>
  \<^verbatim>\<open>shouldIncludeFile\<close> of the later revision of the package, which takes the name
  and consults no allow-list.
\<close>

definition shouldIncludeFile :: "string \<Rightarrow> panic + bool" where
  "shouldIncludeFile fileName =
     (case fileName of
        [] \<Rightarrow> Inl IndexOutOfRange
      | c # _ \<Rightarrow>
          if c = CHR ''.'' then Inr False
          else Inr (Ext fileName \<noteq> ''.partial''))"

text \<open>
  The inclusion filter as the specification words it: a file qualifies unless its name
  begins with the hidden-file marker, or its extension is the in-progress marker, or an
  allow-list is configured and the extension is absent from it.
\<close>

definition spec_inclusion_filter :: "string list \<Rightarrow> string \<Rightarrow> bool" where
  "spec_inclusion_filter allowList fileName =
     (take 1 fileName \<noteq> ''.'' \<and> Ext fileName \<noteq> ''.partial'' \<and>
      (if allowList = [] then True else Ext fileName \<in> set allowList))"

section \<open>Files, metadata and the external collaborators\<close>

text \<open>
  A file handle is a byte stream that may break: \<open>read_fault = Some (k, e)\<close> says that
  reading delivers the first \<open>k\<close> bytes of \<open>content\<close> and then fails with the error
  \<open>e\<close>; with \<open>None\<close> reading delivers all of \<open>content\<close> and ends in \<^verbatim>\<open>io.EOF\<close>.
  An \<^verbatim>\<open>*os.File\<close> carries the result of \<^verbatim>\<open>Stat\<close> as well.
\<close>

record FileInfo =
  Name :: string
  Size :: int
  ModTime :: nat

record reader =
  content :: "byte list"
  read_fault :: "(nat \<times> string) option"

record os_file = reader +
  Stat :: "string + FileInfo"

definition deliverable :: "'a reader_scheme \<Rightarrow> byte list" where
  "deliverable f = (case read_fault f of None \<Rightarrow> content f | Some (k, e) \<Rightarrow> take k (content f))"

definition stream_error :: "'a reader_scheme \<Rightarrow> string option" where
  "stream_error f = (case read_fault f of None \<Rightarrow> None | Some (k, e) \<Rightarrow> Some e)"

text \<open>The first \<^verbatim>\<open>Read\<close> into a buffer of \<open>n\<close> bytes on a freshly opened file.\<close>

definition file_Read :: "'a reader_scheme \<Rightarrow> nat \<Rightarrow> string + byte list" where
  "file_Read f n =
     (if deliverable f = []
      then Inl (case stream_error f of None \<Rightarrow> ''EOF'' | Some e \<Rightarrow> e)
      else Inr (take n (deliverable f)))"

text \<open>
  Values stored in a \<^verbatim>\<open>map[string]any\<close> metadata record. The two nested maps of the
  source are written by map literals or by inserts of distinct keys, and are kept as
  association lists.
\<close>

datatype mvalue =
    MString string
  | MInt64 int
  | MTime nat
  | MBytesMap "(string \<times> byte list) list"
  | MStringMap "(string \<times> string) list"

type_synonym metadata = "string \<rightharpoonup> mvalue"

text \<open>The webhook client's types (webhook/client.go).\<close>

record PostGenericWebhookOpt =
  opt_Source :: string
  opt_ProjectId :: string
  opt_Format :: string

record PostGenericWebhookResponse =
  resp_Cid :: string
  resp_Error :: "string option"

text \<open>
  A JSON value as \<^verbatim>\<open>encoding/json\<close> scans it; an object keeps its members in the order of
  the text, duplicates included. A number is kept as its literal.
\<close>

datatype json =
    JNull
  | JBool bool
  | JNumber string
  | JString string
  | JArray "json list"
  | JObject "(string \<times> json) list"

text \<open>
  The request that \<^verbatim>\<open>PostFileToWebHook\<close> hands to \<^verbatim>\<open>client.Do\<close>: the URL, the
  \<^verbatim>\<open>Authorization\<close> header when a token is configured, and the three multipart fields
  that the producer goroutine writes into the pipe, in their order
  (\<^verbatim>\<open>metadata_format\<close>, \<^verbatim>\<open>metadata\<close>, \<^verbatim>\<open>file\<close>). The \<^verbatim>\<open>Content-Type\<close> header
  only names the multipart boundary and is left out.
\<close>

record http_request =
  req_method :: string
  req_url :: string
  req_authorization :: "string option"
  part_metadata_format :: string
  part_metadata :: metadata
  part_file :: reader

record http_response =
  StatusCode :: int
  Body :: string

text \<open>
  Modelled from the spec: the asset and archive types of package \<^verbatim>\<open>util\<close>, which is
  not under src/ (``a verified list of assets, each with its own digests, signature
  bytes, optional trusted-timestamp proofs, and embedded per-asset metadata (original
  capture path, modified/created times)''; ``verified archive-level metadata and a
  signature''). The field names are those the callers read.
\<close>

record ProofModeFileMetadata =
  FilePath :: string
  FileModified :: string
  FileCreated :: string

record ProofModeAsset =
  Metadata :: ProofModeFileMetadata
  MetadataBytes :: "byte list"
  MetadataSignature :: "byte list"
  AssetSignature :: "byte list"
  PubKey :: "byte list"
  Ots :: "byte list"
  Gst :: "byte list"
  Sha256 :: string
  Md5 :: string
  Blake3 :: string
  FileSize :: int

record WaczMetadata =
  wacz_Modified :: string
  wacz_Created :: string
  wacz_MetadataBytes :: "byte list"
  wacz_MetadataSignature :: "byte list"
  wacz_PubKey :: "byte list"

record zip_file =
  zip_Open :: "string + reader"

type_synonym zip_reader = "(string \<times> zip_file) list"

text \<open>
  Everything outside the repository that one invocation of the pipeline consults is a
  field of the environment: the configuration, the clock, the faults of the database
  connection, the file system, package \<^verbatim>\<open>util\<close>, the HTTP transport and the library
  functions whose results the code only passes on. \<open>os_Open\<close> takes the place of the
  call, since the file system may change between two calls of one invocation.
\<close>

datatype stmt = SelectStatus | InsertFound | UpdateUploading | UpdateDone | UpdateError

datatype site = AtCheckFileType | AtGetFileMetadata | AtUpload

record env =
  SyncFolderRoot :: string
  FileExtensions :: "string list"
  Webhook_Host :: string
  Webhook_Jwt :: string
  time_Now :: nat
  db_fault :: "stmt \<Rightarrow> string \<Rightarrow> string option"
  os_Open :: "site \<Rightarrow> string \<Rightarrow> string + os_file"
  zip_OpenReader :: "string \<Rightarrow> string + zip_reader"
  CheckIsProofModeFile :: "string \<Rightarrow> bool"
  CheckIsWaczFile :: "string \<Rightarrow> bool"
  ReadAndVerifyProofModeMetadata :: "string \<Rightarrow> string + ProofModeAsset list"
  ReadAndVerifyWaczMetadata :: "string \<Rightarrow> string + WaczMetadata"
  GetProofModeZipFiles :: "zip_reader \<Rightarrow> string + (string \<rightharpoonup> zip_file)"
  sha256_Sum :: "byte list \<Rightarrow> byte list"
  md5_Sum :: "byte list \<Rightarrow> byte list"
  blake3_Sum :: "byte list \<Rightarrow> byte list"
  DetectContentType :: "byte list \<Rightarrow> string"
  mimetype_readLimit :: nat
  mimetype_String :: "byte list \<Rightarrow> string"
  Format_RFC3339 :: "nat \<Rightarrow> string"
  Format_RFC3339_UTC :: "nat \<Rightarrow> string"
  filepath_Base :: "string \<Rightarrow> string"
  filepath_Join :: "string \<Rightarrow> string \<Rightarrow> string"
  filepath_Clean :: "string \<Rightarrow> string"
  url_Parse :: "string \<Rightarrow> string + string"
  http_NewRequest :: "string \<Rightarrow> string option"
  client_Do :: "http_request \<Rightarrow> string + http_response"
  json_scan :: "string \<Rightarrow> string + json"
  PostFileToWebHook_by_path :: "string \<Rightarrow> metadata \<Rightarrow> string + PostGenericWebhookResponse"

section \<open>The fingerprinter\<close>

text \<open>\<^verbatim>\<open>hex.EncodeToString\<close>: two digits of \<^verbatim>\<open>0123456789abcdef\<close> for each byte.\<close>

definition hextable :: string where
  "hextable = ''0123456789abcdef''"

definition hex_byte :: "byte \<Rightarrow> string" where
  "hex_byte v = [hextable ! unat (drop_bit 4 v), hextable ! unat (v AND 0x0f)]"

definition EncodeToString :: "byte list \<Rightarrow> string" where
  "EncodeToString src = concat (map hex_byte src)"

text \<open>
  A hash accumulator is the sequence of bytes written to it so far; \<^verbatim>\<open>Sum(nil)\<close>
  applies the digest function to that sequence. \<^verbatim>\<open>io.MultiWriter\<close> writes every chunk
  to each accumulator in turn, and \<^verbatim>\<open>io.Copy\<close> moves the stream to the writer in
  chunks of 32 KiB until the stream ends or fails.
\<close>

definition MultiWriter_Write :: "byte list \<Rightarrow> byte list list \<Rightarrow> byte list list" where
  "MultiWriter_Write chunk accs = map (\<lambda>acc. acc @ chunk) accs"

function io_Copy_loop :: "byte list \<Rightarrow> byte list list \<Rightarrow> byte list list" where
  "io_Copy_loop bs accs =
     (if bs = [] then accs
      else io_Copy_loop (drop 32768 bs) (MultiWriter_Write (take 32768 bs) accs))"
  by pat_completeness auto
termination
  by (relation "measure (\<lambda>(bs, accs). length bs)") auto

declare io_Copy_loop.simps [simp del]

definition io_Copy :: "byte list list \<Rightarrow> 'a reader_scheme \<Rightarrow> byte list list \<times> string option" where
  "io_Copy accs f = (io_Copy_loop (deliverable f) accs, stream_error f)"

text \<open>\<^verbatim>\<open>strings.TrimPrefix\<close>.\<close>

definition TrimPrefix :: "string \<Rightarrow> string \<Rightarrow> string" where
  "TrimPrefix s p = (if take (length p) s = p then drop (length p) s else s)"

text \<open>
  \<^verbatim>\<open>getFileMetadata\<close> of the revision with format dispatch (one \<^verbatim>\<open>io.Copy\<close> of the
  file into the three accumulators behind a \<^verbatim>\<open>MultiWriter\<close>).
\<close>

definition getFileMetadata_copy :: "env \<Rightarrow> string \<Rightarrow> string \<Rightarrow> string + metadata" where
  "getFileMetadata_copy E filePath mediaType =
     (case os_Open E AtGetFileMetadata filePath of
        Inl err \<Rightarrow> Inl err
      | Inr file \<Rightarrow>
     (case Stat file of
        Inl err \<Rightarrow> Inl err
      | Inr fileInfo \<Rightarrow>
     (case io_Copy [[], [], []] file of
        (_, Some err) \<Rightarrow> Inl err
      | (writers, None) \<Rightarrow>
          let sha = writers ! 0; md = writers ! 1; blake = writers ! 2;
              syncRoot = SyncFolderRoot E
          in Inr [''sha256'' \<mapsto> MString (EncodeToString (sha256_Sum E sha)),
                  ''md5'' \<mapsto> MString (EncodeToString (md5_Sum E md)),
                  ''blake3'' \<mapsto> MString (EncodeToString (blake3_Sum E blake)),
                  ''file_size'' \<mapsto> MInt64 (Size fileInfo),
                  ''file_name'' \<mapsto> MString (Name fileInfo),
                  ''media_type'' \<mapsto> MString mediaType,
                  ''last_modified'' \<mapsto> MString (Format_RFC3339 E (ModTime fileInfo)),
                  ''time_created'' \<mapsto> MString (Format_RFC3339 E (ModTime fileInfo)),
                  ''asset_origin'' \<mapsto> MString (TrimPrefix filePath syncRoot)])))"

text \<open>
  \<^verbatim>\<open>getFileMetadata\<close> of preprocessor/folder/file.go. The file is read through three
  nested \<^verbatim>\<open>io.TeeReader\<close>s, so each accumulator receives exactly the bytes that the
  consumer of the outermost reader reads. The consumer is \<^verbatim>\<open>mimetype.DetectReader\<close>,
  which (with a read limit \<open>l > 0\<close>) fills a buffer of \<open>l\<close> bytes with
  \<^verbatim>\<open>io.ReadAtLeast\<close> and treats the end of the stream as no error, and (with \<open>l = 0\<close>)
  reads the stream to its end. The limit is a variable of that library, 3072 unless
  \<^verbatim>\<open>mimetype.SetLimit\<close> is called, which this repository never does; here it is the
  field \<open>mimetype_readLimit\<close> of the environment.
\<close>

definition DetectReader :: "env \<Rightarrow> 'a reader_scheme \<Rightarrow> byte list \<times> (string + string)" where
  "DetectReader E r =
     (let l = mimetype_readLimit E in
      if l = 0 then
        (deliverable r,
         case stream_error r of Some err \<Rightarrow> Inl err | None \<Rightarrow> Inr (mimetype_String E (deliverable r)))
      else
        (let input = take l (deliverable r) in
         (input,
          if length input < l then
            (case stream_error r of Some err \<Rightarrow> Inl err | None \<Rightarrow> Inr (mimetype_String E input))
          else Inr (mimetype_String E input))))"

definition getFileMetadata_tee :: "env \<Rightarrow> string \<Rightarrow> string + metadata" where
  "getFileMetadata_tee E filePath =
     (case os_Open E AtGetFileMetadata filePath of
        Inl err \<Rightarrow> Inl err
      | Inr file \<Rightarrow>
     (case Stat file of
        Inl err \<Rightarrow> Inl err
      | Inr fileInfo \<Rightarrow>
     (case DetectReader E file of
        (_, Inl err) \<Rightarrow> Inl err
      | (teed, Inr mtype) \<Rightarrow>
          Inr [''sha256'' \<mapsto> MString (EncodeToString (sha256_Sum E teed)),
               ''md5'' \<mapsto> MString (EncodeToString (md5_Sum E teed)),
               ''blake3'' \<mapsto> MString (EncodeToString (blake3_Sum E teed)),
               ''mimetype'' \<mapsto> MString mtype,
               ''fileSize'' \<mapsto> MInt64 (Size fileInfo),
               ''fileName'' \<mapsto> MString (Name fileInfo),
               ''fileLastModified'' \<mapsto> MTime (ModTime fileInfo)])))"

text \<open>
  \<^verbatim>\<open>getFileMetadata\<close> of the first revision with a status store: \<^verbatim>\<open>io.ReadAll\<close> reads
  the three nested \<^verbatim>\<open>io.TeeReader\<close>s to the end of the stream.
\<close>

definition getFileMetadata_readall :: "env \<Rightarrow> string \<Rightarrow> string + metadata" where
  "getFileMetadata_readall E filePath =
     (case os_Open E AtGetFileMetadata filePath of
        Inl err \<Rightarrow> Inl err
      | Inr file \<Rightarrow>
     (case Stat file of
        Inl err \<Rightarrow> Inl err
      | Inr fileInfo \<Rightarrow>
     (case stream_error file of
        Some err \<Rightarrow> Inl err
      | None \<Rightarrow>
          let bytes = deliverable file;
              mediaType = DetectContentType E bytes
          in Inr [''sha256'' \<mapsto> MString (EncodeToString (sha256_Sum E bytes)),
                  ''md5'' \<mapsto> MString (EncodeToString (md5_Sum E bytes)),
                  ''blake3'' \<mapsto> MString (EncodeToString (blake3_Sum E bytes)),
                  ''media_type'' \<mapsto> MString mediaType,
                  ''file_size'' \<mapsto> MInt64 (Size fileInfo),
                  ''file_name'' \<mapsto> MString (Name fileInfo),
                  ''last_modified'' \<mapsto> MString (Format_RFC3339 E (ModTime fileInfo)),
                  ''time_created'' \<mapsto> MString (Format_RFC3339 E (ModTime fileInfo))])))"

section \<open>The webhook client\<close>

text \<open>\<^verbatim>\<open>%d\<close> of \<^verbatim>\<open>fmt\<close>: the decimal digits of an integer.\<close>

function dec_digits :: "nat \<Rightarrow> string" where
  "dec_digits n =
     (if n < 10 then [char_of (48 + n)]
      else dec_digits (n div 10) @ [char_of (48 + n mod 10)])"
  by pat_completeness auto
termination
  by (relation "measure (\<lambda>n. n)") auto

declare dec_digits.simps [simp del]

definition fmt_d :: "int \<Rightarrow> string" where
  "fmt_d i = (if i < 0 then CHR ''-'' # dec_digits (nat (- i)) else dec_digits (nat i))"

text \<open>
  \<^verbatim>\<open>json.NewDecoder(resp.Body).Decode(&value)\<close> for a \<^verbatim>\<open>PostGenericWebhookResponse\<close>.
  Reading the next JSON value off the body is the environment's \<open>json_scan\<close> (a syntax
  error is its error); storing that value into the struct is \<open>json_Unmarshal\<close>, which
  follows \<^verbatim>\<open>encoding/json\<close>:
  \<^item> a member names a field when its key equals the field's tag, or equals it up to the
    case of its letters; other members are skipped;
  \<^item> \<^verbatim>\<open>Cid string\<close> takes a JSON string, is left alone by \<^verbatim>\<open>null\<close>, and any other value
    is an \<^verbatim>\<open>UnmarshalTypeError\<close>;
  \<^item> \<^verbatim>\<open>Error error\<close> is a field of an interface type with a method: \<^verbatim>\<open>null\<close> sets it to
    \<^verbatim>\<open>nil\<close>, and every other value is an \<^verbatim>\<open>UnmarshalTypeError\<close>, since no JSON value can
    be stored into it;
  \<^item> the first such error is saved, the remaining members are still decoded, and the
    saved error is returned at the end;
  \<^item> a top-level \<^verbatim>\<open>null\<close> leaves the struct at its zero value, and a top-level value that
    is neither \<^verbatim>\<open>null\<close> nor an object is an \<^verbatim>\<open>UnmarshalTypeError\<close>.
\<close>

definition json_kind :: "json \<Rightarrow> string" where
  "json_kind v =
     (case v of
        JNull \<Rightarrow> ''null''
      | JBool b \<Rightarrow> ''bool''
      | JNumber n \<Rightarrow> ''number''
      | JString s \<Rightarrow> ''string''
      | JArray vs \<Rightarrow> ''array''
      | JObject ms \<Rightarrow> ''object'')"

definition ascii_lower :: "char \<Rightarrow> char" where
  "ascii_lower c =
     (if (65 :: nat) \<le> of_char c \<and> of_char c \<le> (90 :: nat)
      then char_of (of_char c + (32 :: nat)) else c)"

definition names_field :: "string \<Rightarrow> string \<Rightarrow> bool" where
  "names_field key tag = (key = tag \<or> map ascii_lower key = tag)"

definition field_type_error :: "json \<Rightarrow> string \<Rightarrow> string \<Rightarrow> string" where
  "field_type_error v tag ty =
     ''json: cannot unmarshal '' @ json_kind v @
     '' into Go struct field PostGenericWebhookResponse.'' @ tag @ '' of type '' @ ty"

definition saveError :: "string option \<Rightarrow> string \<Rightarrow> string option" where
  "saveError saved err = (case saved of None \<Rightarrow> Some err | Some first \<Rightarrow> Some first)"

definition decode_member ::
  "PostGenericWebhookResponse \<times> string option \<Rightarrow> string \<times> json
     \<Rightarrow> PostGenericWebhookResponse \<times> string option" where
  "decode_member acc member =
     (case acc of (value, saved) \<Rightarrow>
      case member of (key, v) \<Rightarrow>
        if names_field key ''cid'' then
          (case v of
             JString s \<Rightarrow> (value\<lparr>resp_Cid := s\<rparr>, saved)
           | JNull \<Rightarrow> (value, saved)
           | _ \<Rightarrow> (value, saveError saved (field_type_error v ''cid'' ''string'')))
        else if names_field key ''error'' then
          (case v of
             JNull \<Rightarrow> (value\<lparr>resp_Error := None\<rparr>, saved)
           | _ \<Rightarrow> (value, saveError saved (field_type_error v ''error'' ''error'')))
        else (value, saved))"

definition json_Unmarshal :: "json \<Rightarrow> string + PostGenericWebhookResponse" where
  "json_Unmarshal j =
     (case j of
        JNull \<Rightarrow> Inr \<lparr>resp_Cid = '''', resp_Error = None\<rparr>
      | JObject members \<Rightarrow>
          (case foldl decode_member (\<lparr>resp_Cid = '''', resp_Error = None\<rparr>, None) members of
             (value, None) \<Rightarrow> Inr value
           | (value, Some err) \<Rightarrow> Inl err)
      | _ \<Rightarrow>
          Inl (''json: cannot unmarshal '' @ json_kind j @
               '' into Go value of type webhook.PostGenericWebhookResponse''))"

definition json_Decode :: "env \<Rightarrow> string \<Rightarrow> string + PostGenericWebhookResponse" where
  "json_Decode E body =
     (case json_scan E body of
        Inl err \<Rightarrow> Inl err
      | Inr j \<Rightarrow> json_Unmarshal j)"

text \<open>
  \<^verbatim>\<open>PostFileToWebHook\<close> (webhook/client.go). \<open>webhook_request\<close> is the part before
  \<^verbatim>\<open>client.Do\<close>: it builds the request whose body the producer goroutine streams through
  the pipe. The query value \<^verbatim>\<open>q\<close> receives \<^verbatim>\<open>project_id\<close> but is never written back to
  the URL, so the URL of the request does not depend on \<open>opt_ProjectId\<close>. An error of
  the producer closes the pipe with that error and reaches the caller as the error of
  \<^verbatim>\<open>client.Do\<close>, which is the environment's \<open>client_Do\<close>.
\<close>

definition webhook_request ::
  "env \<Rightarrow> reader \<Rightarrow> metadata \<Rightarrow> PostGenericWebhookOpt \<Rightarrow> string + http_request" where
  "webhook_request E file md opts =
     (let sourcePath = (if opt_Source opts = '''' then ''generic'' else opt_Source opts) in
      case url_Parse E (''http://'' @ Webhook_Host E @ ''/'' @ sourcePath) of
        Inl err \<Rightarrow> Inl err
      | Inr url \<Rightarrow>
          let metadataFormatType =
                (if opt_Format opts = ''cbor'' then ''application/cbor'' else ''application/json'')
          in (case http_NewRequest E url of
                Some err \<Rightarrow> Inl err
              | None \<Rightarrow>
                  Inr \<lparr>req_method = ''POST'', req_url = url,
                       req_authorization =
                         (if Webhook_Jwt E \<noteq> '''' then Some (''Bearer '' @ Webhook_Jwt E) else None),
                       part_metadata_format = metadataFormatType,
                       part_metadata = md,
                       part_file = file\<rparr>))"

definition PostFileToWebHook ::
  "env \<Rightarrow> reader \<Rightarrow> metadata \<Rightarrow> PostGenericWebhookOpt \<Rightarrow> string + PostGenericWebhookResponse" where
  "PostFileToWebHook E file md opts =
     (case webhook_request E file md opts of
        Inl err \<Rightarrow> Inl err
      | Inr req \<Rightarrow>
     (case client_Do E req of
        Inl err \<Rightarrow> Inl err
      | Inr resp \<Rightarrow>
          if StatusCode resp = 400 then Inl ''bad request''
          else if StatusCode resp = 404 then Inl ''bad request''
          else if StatusCode resp \<noteq> 200
            then Inl (''bad status code in response: '' @ fmt_d (StatusCode resp))
          else (case json_Decode E (Body resp) of
                  Inl err \<Rightarrow> Inl err
                | Inr v \<Rightarrow> Inr v)))"

section \<open>The status store\<close>

text \<open>
  The table \<^verbatim>\<open>file_status\<close> (its schema is in the source): \<^verbatim>\<open>file_path\<close> is
  \<^verbatim>\<open>UNIQUE NOT NULL\<close>, so the table is a map from the path to the other columns.
\<close>

definition FileStatusFound :: string where "FileStatusFound = ''Found''"
definition FileStatusUploading :: string where "FileStatusUploading = ''Uploading''"
definition FileStatusSuccess :: string where "FileStatusSuccess = ''Success''"
definition FileStatusError :: string where "FileStatusError = ''Error''"

record file_status_row =
  col_sha256 :: "string option"
  col_status :: string
  col_error :: "string option"
  col_cid :: "string option"
  col_created_at :: nat
  col_updated_at :: nat

type_synonym file_status_table = "string \<rightharpoonup> file_status_row"

record ProjectQueryResult =
  ProjectId :: "string option"
  ProjectPath :: "string option"
  AuthorType :: "string option"
  AuthorName :: "string option"
  AuthorIdentifier :: "string option"

record FileQueryResult =
  Status :: "string option"
  Cid :: "string option"
  ErrorMessage :: "string option"

text \<open>
  The functions of preprocessor/folder/database.go. A statement fails when the
  environment says so (\<open>db_fault\<close>); an \<^verbatim>\<open>INSERT\<close> of a path that is present violates
  the unique constraint; an \<^verbatim>\<open>UPDATE\<close> of a path that is absent changes no row and is
  no error.
\<close>

definition queryIfFileExists ::
  "env \<Rightarrow> file_status_table \<Rightarrow> string \<Rightarrow> string + FileQueryResult option" where
  "queryIfFileExists E d filePath =
     (case db_fault E SelectStatus filePath of
        Some err \<Rightarrow> Inl err
      | None \<Rightarrow>
          (case d filePath of
             None \<Rightarrow> Inr None
           | Some row \<Rightarrow>
               Inr (Some \<lparr>Status = Some (col_status row), Cid = col_cid row,
                          ErrorMessage = col_error row\<rparr>)))"

definition setFileStatusFound ::
  "env \<Rightarrow> file_status_table \<Rightarrow> string \<Rightarrow> string option \<times> file_status_table" where
  "setFileStatusFound E d filePath =
     (case db_fault E InsertFound filePath of
        Some err \<Rightarrow> (Some err, d)
      | None \<Rightarrow>
          (case d filePath of
             Some row \<Rightarrow> (Some ''duplicate key value violates unique constraint'', d)
           | None \<Rightarrow>
               (None, d(filePath \<mapsto>
                  \<lparr>col_sha256 = None, col_status = FileStatusFound, col_error = None,
                   col_cid = None, col_created_at = time_Now E,
                   col_updated_at = time_Now E\<rparr>))))"

definition exec_update ::
  "env \<Rightarrow> stmt \<Rightarrow> file_status_table \<Rightarrow> string \<Rightarrow> (file_status_row \<Rightarrow> file_status_row)
     \<Rightarrow> string option \<times> file_status_table" where
  "exec_update E st d filePath set_columns =
     (case db_fault E st filePath of
        Some err \<Rightarrow> (Some err, d)
      | None \<Rightarrow>
          (None, case d filePath of
                   None \<Rightarrow> d
                 | Some row \<Rightarrow> d(filePath \<mapsto> set_columns row)))"

definition setFileStatusUploading ::
  "env \<Rightarrow> file_status_table \<Rightarrow> string \<Rightarrow> string \<Rightarrow> string option \<times> file_status_table" where
  "setFileStatusUploading E d filePath sha =
     exec_update E UpdateUploading d filePath
       (\<lambda>row. row\<lparr>col_status := FileStatusUploading, col_sha256 := Some sha,
                   col_updated_at := time_Now E\<rparr>)"

definition setFileStatusDone ::
  "env \<Rightarrow> file_status_table \<Rightarrow> string \<Rightarrow> string \<Rightarrow> string option \<times> file_status_table" where
  "setFileStatusDone E d filePath cid =
     exec_update E UpdateDone d filePath
       (\<lambda>row. row\<lparr>col_status := FileStatusSuccess, col_cid := Some cid,
                   col_updated_at := time_Now E\<rparr>)"

definition setFileStatusError ::
  "env \<Rightarrow> file_status_table \<Rightarrow> string \<Rightarrow> string \<Rightarrow> string option \<times> file_status_table" where
  "setFileStatusError E d filePath errorMessage =
     exec_update E UpdateError d filePath
       (\<lambda>row. row\<lparr>col_status := FileStatusError, col_error := Some errorMessage,
                   col_updated_at := time_Now E\<rparr>)"

section \<open>The per-file pipeline\<close>

text \<open>
  The state that an invocation of \<^verbatim>\<open>handleNewFile\<close> reads and writes: the table, and a
  log of the calls it makes to the classifier, the fingerprinter, the verifier and the
  uploader, kept so that ``performs no upload'' is a statement about the result. Console
  output is not part of the state. An invocation returns Go's pair of the content
  identifier and the error (\<open>None\<close> for \<^verbatim>\<open>nil\<close>), or panics.
\<close>

datatype event =
    EvCheckFileType string
  | EvGetFileMetadata string
  | EvVerifyProofMode string
  | EvVerifyWacz string
  | EvPostFileToWebHook string

record state =
  db :: file_status_table
  trace :: "event list"

datatype ret = Panic panic | Ret string "string option"

definition log_event :: "event \<Rightarrow> state \<Rightarrow> state" where
  "log_event ev s = s\<lparr>trace := trace s @ [ev]\<rparr>"

text \<open>
  A call of \<^verbatim>\<open>setFileStatusError\<close> whose own error is printed and otherwise dropped, as
  at every call in \<^verbatim>\<open>handleNewFile\<close>.
\<close>

definition record_error :: "env \<Rightarrow> state \<Rightarrow> string \<Rightarrow> string \<Rightarrow> state" where
  "record_error E s filePath msg = s\<lparr>db := snd (setFileStatusError E (db s) filePath msg)\<rparr>"

text \<open>The last statements of every revision: the Success transition with \<open>cid\<close>.\<close>

definition mark_done :: "env \<Rightarrow> state \<Rightarrow> string \<Rightarrow> string \<Rightarrow> string \<Rightarrow> ret \<times> state" where
  "mark_done E s filePath cid returned =
     (case setFileStatusDone E (db s) filePath cid of
        (Some err, d) \<Rightarrow> (Ret '''' (Some (''error setting file status to done: '' @ err)), s\<lparr>db := d\<rparr>)
      | (None, d) \<Rightarrow> (Ret returned None, s\<lparr>db := d\<rparr>))"

text \<open>
  The project annotation. The fields of the project are pointers in this revision, and
  \<^verbatim>\<open>*project.ProjectId\<close> panics on \<^verbatim>\<open>nil\<close>.
\<close>

definition author_of :: "ProjectQueryResult \<Rightarrow> (string \<times> string) list" where
  "author_of pr =
     (case AuthorType pr of None \<Rightarrow> [] | Some v \<Rightarrow> [(''@type'', v)]) @
     (case AuthorName pr of None \<Rightarrow> [] | Some v \<Rightarrow> [(''name'', v)]) @
     (case AuthorIdentifier pr of None \<Rightarrow> [] | Some v \<Rightarrow> [(''identifier'', v)])"

definition annotate_one :: "ProjectQueryResult \<Rightarrow> metadata \<Rightarrow> panic + metadata" where
  "annotate_one pr md =
     (case ProjectId pr of
        None \<Rightarrow> Inl NilDereference
      | Some projectId \<Rightarrow>
     (case ProjectPath pr of
        None \<Rightarrow> Inl NilDereference
      | Some projectPath \<Rightarrow>
          let md1 = md(''project_id'' \<mapsto> MString projectId, ''project_path'' \<mapsto> MString projectPath)
          in if AuthorType pr \<noteq> None \<or> AuthorName pr \<noteq> None \<or> AuthorIdentifier pr \<noteq> None
             then Inr (md1(''author'' \<mapsto> MStringMap (author_of pr)))
             else Inr md1))"

fun annotate_all :: "ProjectQueryResult \<Rightarrow> metadata list \<Rightarrow> panic + metadata list" where
  "annotate_all pr [] = Inr []"
| "annotate_all pr (md # mds) =
     (case annotate_one pr md of
        Inl p \<Rightarrow> Inl p
      | Inr md' \<Rightarrow>
          (case annotate_all pr mds of
             Inl p \<Rightarrow> Inl p
           | Inr mds' \<Rightarrow> Inr (md' # mds')))"

text \<open>
  The type assertion \<^verbatim>\<open>md[key].(string)\<close>: a panic when the key is absent or holds a
  value of another type.
\<close>

definition string_at :: "metadata \<Rightarrow> string \<Rightarrow> panic + string" where
  "string_at md key = (case md key of Some (MString v) \<Rightarrow> Inr v | _ \<Rightarrow> Inl TypeAssertion)"

subsection \<open>First revision with a status store (one metadata record per file)\<close>

text \<open>
  This revision's uploader takes the path of the file; it is not under src/ and is the
  environment's \<open>PostFileToWebHook_by_path\<close>. \<open>handleNewFile_r1_upload\<close> is the part of
  \<^verbatim>\<open>handleNewFile\<close> after the switch on the stored status; \<open>cid\<close> is the local variable
  that the query filled.
\<close>

definition handleNewFile_r1_upload ::
  "env \<Rightarrow> state \<Rightarrow> string \<Rightarrow> ProjectQueryResult option \<Rightarrow> string \<Rightarrow> ret \<times> state" where
  "handleNewFile_r1_upload E s0 filePath project cid =
     (let s = log_event (EvGetFileMetadata filePath) s0 in
      case getFileMetadata_readall E filePath of
        Inl err \<Rightarrow>
          (Ret '''' (Some (''error getting metadata for file '' @ filePath @ '': '' @ err)),
           record_error E s filePath err)
      | Inr md0 \<Rightarrow>
     (case (case project of None \<Rightarrow> Inr md0 | Some pr \<Rightarrow> annotate_one pr md0) of
        Inl p \<Rightarrow> (Panic p, s)
      | Inr md \<Rightarrow>
     (case string_at md ''sha256'' of
        Inl p \<Rightarrow> (Panic p, s)
      | Inr sha \<Rightarrow>
     (case setFileStatusUploading E (db s) filePath sha of
        (Some err, d) \<Rightarrow>
          (Ret '''' (Some (''error setting file status to uploading: '' @ err)), s\<lparr>db := d\<rparr>)
      | (None, d) \<Rightarrow>
          let s1 = log_event (EvPostFileToWebHook filePath) (s\<lparr>db := d\<rparr>) in
          (case PostFileToWebHook_by_path E filePath md of
             Inl err \<Rightarrow>
               (Ret '''' (Some (''error posting metadata for file '' @ filePath @ '': '' @ err)),
                record_error E s1 filePath err)
           | Inr resp \<Rightarrow> mark_done E s1 filePath cid (resp_Cid resp))))))"

text \<open>
  The head of \<^verbatim>\<open>handleNewFile\<close> in the two revisions that query with
  \<^verbatim>\<open>queryIfFileExists\<close>: the query, the three locals, and the switch on the status. The
  rest of the function is the parameter \<open>rest\<close>, applied to the state and to \<open>cid\<close>.
\<close>

definition handleNewFile_head ::
  "env \<Rightarrow> state \<Rightarrow> string \<Rightarrow> (state \<Rightarrow> string \<Rightarrow> ret \<times> state) \<Rightarrow> ret \<times> state" where
  "handleNewFile_head E s filePath rest =
     (case queryIfFileExists E (db s) filePath of
        Inl err \<Rightarrow> (Ret '''' (Some (''error checking if file exists in database: '' @ err)), s)
      | Inr result \<Rightarrow>
          let status = (case result of None \<Rightarrow> ''''
                        | Some r \<Rightarrow> (case Status r of None \<Rightarrow> '''' | Some v \<Rightarrow> v));
              errorMessage = (case result of None \<Rightarrow> ''''
                        | Some r \<Rightarrow> (case ErrorMessage r of None \<Rightarrow> '''' | Some v \<Rightarrow> v));
              cid = (case result of None \<Rightarrow> ''''
                        | Some r \<Rightarrow> (case Cid r of None \<Rightarrow> '''' | Some v \<Rightarrow> v))
          in if status = FileStatusFound then rest s cid
             else if status = FileStatusUploading then rest s cid
             else if status = FileStatusSuccess then (Ret cid None, s)
             else if status = FileStatusError
               then (Ret '''' (Some (''file '' @ filePath @ '' has error: '' @ errorMessage)), s)
             else (case setFileStatusFound E (db s) filePath of
                     (Some err, d) \<Rightarrow>
                       (Ret '''' (Some (''error setting file status to found: '' @ err)), s\<lparr>db := d\<rparr>)
                   | (None, d) \<Rightarrow> rest (s\<lparr>db := d\<rparr>) cid))"

definition handleNewFile_r1 ::
  "env \<Rightarrow> state \<Rightarrow> string \<Rightarrow> ProjectQueryResult option \<Rightarrow> ret \<times> state" where
  "handleNewFile_r1 E s filePath project =
     handleNewFile_head E s filePath (\<lambda>s' cid. handleNewFile_r1_upload E s' filePath project cid)"

subsection \<open>Revision with format dispatch (generic files and signed bundles)\<close>

definition proofmode_metadata :: "env \<Rightarrow> string \<Rightarrow> ProofModeAsset \<Rightarrow> metadata" where
  "proofmode_metadata E filePath asset =
     (let syncRoot = SyncFolderRoot E;
          fileName = filepath_Base E (FilePath (Metadata asset))
      in [''sha256'' \<mapsto> MString (Sha256 asset),
          ''md5'' \<mapsto> MString (Md5 asset),
          ''blake3'' \<mapsto> MString (Blake3 asset),
          ''file_size'' \<mapsto> MInt64 (FileSize asset),
          ''file_name'' \<mapsto> MString fileName,
          ''last_modified'' \<mapsto> MString (FileModified (Metadata asset)),
          ''time_created'' \<mapsto> MString (FileCreated (Metadata asset)),
          ''asset_origin'' \<mapsto>
             MString (filepath_Join E (TrimPrefix filePath syncRoot) (FilePath (Metadata asset))),
          ''asset_signature'' \<mapsto> MString (EncodeToString (AssetSignature asset)),
          ''media_type'' \<mapsto> MString ''application/zip'',
          ''proofmode'' \<mapsto>
             MBytesMap [(''metadata'', MetadataBytes asset),
                        (''meta_sig'', MetadataSignature asset),
                        (''media_sig'', AssetSignature asset),
                        (''pubkey'', PubKey asset),
                        (''ots'', Ots asset),
                        (''gst'', Gst asset)]])"

definition getProofModeFileMetadatas :: "env \<Rightarrow> string \<Rightarrow> string + metadata list" where
  "getProofModeFileMetadatas E filePath =
     (case ReadAndVerifyProofModeMetadata E filePath of
        Inl err \<Rightarrow> Inl err
      | Inr assets \<Rightarrow> Inr (map (proofmode_metadata E filePath) assets))"

definition checkFileType :: "env \<Rightarrow> string \<Rightarrow> string + (string \<times> string)" where
  "checkFileType E filePath =
     (case os_Open E AtCheckFileType filePath of
        Inl err \<Rightarrow> Inl err
      | Inr file \<Rightarrow>
     (case file_Read file 512 of
        Inl err \<Rightarrow> Inl err
      | Inr buffer \<Rightarrow>
          let mediaType = DetectContentType E buffer;
              fileType = (if mediaType = ''application/zip'' \<and> CheckIsProofModeFile E filePath
                          then ''proofmode'' else ''generic'')
          in Inr (fileType, mediaType)))"

text \<open>
  The loop over the metadata records of a bundle: each asset is looked up in the zip
  listing, opened and posted; \<open>cid\<close> is overwritten by every response. \<open>on_missing\<close>
  is the \<^verbatim>\<open>else\<close> branch of the lookup, which differs between the revisions.
\<close>

fun post_assets ::
  "env \<Rightarrow> (state \<Rightarrow> string \<Rightarrow> ret \<times> state) \<Rightarrow> string \<Rightarrow> (string \<rightharpoonup> zip_file) \<Rightarrow>
   metadata list \<Rightarrow> state \<Rightarrow> string \<Rightarrow> (ret \<times> state) + (string \<times> state)" where
  "post_assets E on_missing filePath fileMap [] s cid = Inr (cid, s)"
| "post_assets E on_missing filePath fileMap (md # mds) s cid =
     (case string_at md ''file_name'' of
        Inl p \<Rightarrow> Inl (Panic p, s)
      | Inr fileName \<Rightarrow>
     (case fileMap fileName of
        None \<Rightarrow> Inl (on_missing s fileName)
      | Some zipFile \<Rightarrow>
     (case zip_Open zipFile of
        Inl err \<Rightarrow>
          Inl (Ret '''' (Some (''error opening file '' @ fileName @ '' in zip: '' @ err)),
               record_error E s filePath err)
      | Inr file \<Rightarrow>
          let s1 = log_event (EvPostFileToWebHook filePath) s in
          (case PostFileToWebHook E file md
                  \<lparr>opt_Source = '''', opt_ProjectId = '''', opt_Format = ''cbor''\<rparr> of
             Inl err \<Rightarrow>
               Inl (Ret '''' (Some (''error posting metadata for file '' @ filePath @ '': '' @ err)),
                    record_error E s1 filePath err)
           | Inr resp \<Rightarrow>
               post_assets E on_missing filePath fileMap mds s1 (resp_Cid resp)))))"

text \<open>The upload of a bundle: the zip listing, the loop, the Success transition.\<close>

definition upload_proofmode ::
  "env \<Rightarrow> (state \<Rightarrow> string \<Rightarrow> ret \<times> state) \<Rightarrow> state \<Rightarrow> string \<Rightarrow> metadata list \<Rightarrow> string
     \<Rightarrow> ret \<times> state" where
  "upload_proofmode E on_missing s filePath mds cid =
     (case zip_OpenReader E filePath of
        Inl err \<Rightarrow>
          (Ret '''' (Some (''error opening zip file '' @ filePath @ '': '' @ err)),
           record_error E s filePath err)
      | Inr zipListing \<Rightarrow>
     (case GetProofModeZipFiles E zipListing of
        Inl err \<Rightarrow>
          (Ret '''' (Some (''error getting files from zip: '' @ err)),
           record_error E s filePath err)
      | Inr fileMap \<Rightarrow>
     (case post_assets E on_missing filePath fileMap mds s cid of
        Inl out \<Rightarrow> out
      | Inr (cid', s') \<Rightarrow> mark_done E s' filePath cid' cid')))"

text \<open>The upload of a generic file: the file is opened again and posted with \<^verbatim>\<open>metadatas[0]\<close>.\<close>

definition upload_generic :: "env \<Rightarrow> state \<Rightarrow> string \<Rightarrow> metadata list \<Rightarrow> ret \<times> state" where
  "upload_generic E s filePath mds =
     (case os_Open E AtUpload filePath of
        Inl err \<Rightarrow>
          (Ret '''' (Some (''error opening file '' @ filePath @ '': '' @ err)),
           record_error E s filePath err)
      | Inr file \<Rightarrow>
     (case mds of
        [] \<Rightarrow> (Panic IndexOutOfRange, s)
      | md0 # _ \<Rightarrow>
          let s1 = log_event (EvPostFileToWebHook filePath) s in
          (case PostFileToWebHook E \<lparr>content = content file, read_fault = read_fault file\<rparr> md0
                  \<lparr>opt_Source = '''', opt_ProjectId = '''', opt_Format = ''''\<rparr> of
             Inl err \<Rightarrow>
               (Ret '''' (Some (''error posting metadata for file '' @ filePath @ '': '' @ err)),
                record_error E s1 filePath err)
           | Inr resp \<Rightarrow> mark_done E s1 filePath (resp_Cid resp) (resp_Cid resp))))"

definition missing_in_zip_r2 :: "env \<Rightarrow> string \<Rightarrow> state \<Rightarrow> string \<Rightarrow> ret \<times> state" where
  "missing_in_zip_r2 E filePath s fileName =
     (Ret '''' (Some (''file '' @ fileName @ '' not found in zip'')),
      record_error E s filePath (''file '' @ fileName @ '' not found in zip''))"

definition handleNewFile_r2_upload ::
  "env \<Rightarrow> state \<Rightarrow> string \<Rightarrow> string \<Rightarrow> metadata list \<Rightarrow> string \<Rightarrow> ret \<times> state" where
  "handleNewFile_r2_upload E s filePath fileType mds cid =
     (if fileType = ''proofmode''
        then upload_proofmode E (missing_in_zip_r2 E filePath) s filePath mds cid
      else if fileType = ''generic'' then upload_generic E s filePath mds
      else mark_done E s filePath cid cid)"

definition handleNewFile_r2_metadatas ::
  "env \<Rightarrow> state \<Rightarrow> string \<Rightarrow> string \<Rightarrow> string \<Rightarrow> (ret \<times> state) + (metadata list \<times> state)" where
  "handleNewFile_r2_metadatas E s filePath fileType mediaType =
     (if fileType = ''proofmode'' then
        (let s1 = log_event (EvVerifyProofMode filePath) s in
         case getProofModeFileMetadatas E filePath of
           Inl err \<Rightarrow>
             Inl (Ret '''' (Some (''error getting proofmode file metadatas: '' @ err)),
                  record_error E s1 filePath err)
         | Inr mds \<Rightarrow> Inr (mds, s1))
      else if fileType = ''generic'' then
        (let s1 = log_event (EvGetFileMetadata filePath) s in
         case getFileMetadata_copy E filePath mediaType of
           Inl err \<Rightarrow>
             Inl (Ret '''' (Some (''error getting file metadata: '' @ err)),
                  record_error E s1 filePath err)
         | Inr md \<Rightarrow> Inr ([md], s1))
      else Inr ([], s))"

text \<open>
  From the metadata list to the end: the project annotation, the Uploading transition
  with \<^verbatim>\<open>metadatas[0]["sha256"].(string)\<close>, and the upload.
\<close>

definition handleNewFile_r2_transition ::
  "env \<Rightarrow> state \<Rightarrow> string \<Rightarrow> ProjectQueryResult option \<Rightarrow> string \<Rightarrow> metadata list \<Rightarrow> string
     \<Rightarrow> ret \<times> state" where
  "handleNewFile_r2_transition E s filePath project fileType mds0 cid =
     (case (case project of None \<Rightarrow> Inr mds0 | Some pr \<Rightarrow> annotate_all pr mds0) of
        Inl p \<Rightarrow> (Panic p, s)
      | Inr mds \<Rightarrow>
     (case mds of
        [] \<Rightarrow> (Panic IndexOutOfRange, s)
      | md0 # _ \<Rightarrow>
     (case string_at md0 ''sha256'' of
        Inl p \<Rightarrow> (Panic p, s)
      | Inr sha \<Rightarrow>
     (case setFileStatusUploading E (db s) filePath sha of
        (Some err, d) \<Rightarrow>
          (Ret '''' (Some (''error setting file status to uploading: '' @ err)), s\<lparr>db := d\<rparr>)
      | (None, d) \<Rightarrow> handleNewFile_r2_upload E (s\<lparr>db := d\<rparr>) filePath fileType mds cid))))"

definition handleNewFile_r2_rest ::
  "env \<Rightarrow> state \<Rightarrow> string \<Rightarrow> ProjectQueryResult option \<Rightarrow> string \<Rightarrow> ret \<times> state" where
  "handleNewFile_r2_rest E s0 filePath project cid =
     (let s = log_event (EvCheckFileType filePath) s0 in
      case checkFileType E filePath of
        Inl err \<Rightarrow>
          (Ret '''' (Some (''error checking file type: '' @ err)), record_error E s filePath err)
      | Inr (fileType, mediaType) \<Rightarrow>
     (case handleNewFile_r2_metadatas E s filePath fileType mediaType of
        Inl out \<Rightarrow> out
      | Inr (mds0, s1) \<Rightarrow> handleNewFile_r2_transition E s1 filePath project fileType mds0 cid))"

definition handleNewFile_r2 ::
  "env \<Rightarrow> state \<Rightarrow> string \<Rightarrow> ProjectQueryResult option \<Rightarrow> ret \<times> state" where
  "handleNewFile_r2 E s filePath project =
     handleNewFile_head E s filePath (\<lambda>s' cid. handleNewFile_r2_rest E s' filePath project cid)"

text \<open>
  A sequence of invocations of the pipeline, each with the environment it meets; a panic
  ends the process, and the next invocation finds the table as the panic left it.
\<close>

fun run_r2 :: "state \<Rightarrow> (env \<times> string \<times> ProjectQueryResult option) list \<Rightarrow> state" where
  "run_r2 s [] = s"
| "run_r2 s ((E, filePath, project) # rest) =
     run_r2 (snd (handleNewFile_r2 E s filePath project)) rest"

subsection \<open>Revision with web-archive bundles and per-project allow-lists\<close>

text \<open>
  Modelled from the spec: the declarations of this revision's database file, which is
  not under src/. The project record has string fields and an ``optional file-extension
  allow-list override''; the query result has string fields. \<^verbatim>\<open>queryAndSetFoundFileStatus\<close>
  is the specification's \<^verbatim>\<open>ClaimOrGet\<close> (``if absent, atomically inserts a new record in
  state Found and returns it; if present, returns the existing record unchanged''), and
  \<^verbatim>\<open>setFileStatusUploading\<close> is called without a digest, so it ``transitions to
  Uploading'' and writes no digest.
\<close>

record ProjectQueryResult_r3 =
  r3_ProjectId :: string
  r3_ProjectPath :: string
  r3_AuthorType :: string
  r3_AuthorName :: string
  r3_AuthorIdentifier :: string
  r3_FileExtensions :: "string list"

record FileQueryResult_r3 =
  r3_Status :: string
  r3_Cid :: string
  r3_ErrorMessage :: string

definition queryAndSetFoundFileStatus ::
  "env \<Rightarrow> file_status_table \<Rightarrow> string \<Rightarrow> (string + FileQueryResult_r3 option) \<times> file_status_table" where
  "queryAndSetFoundFileStatus E d filePath =
     (case db_fault E SelectStatus filePath of
        Some err \<Rightarrow> (Inl err, d)
      | None \<Rightarrow>
          (case d filePath of
             Some row \<Rightarrow>
               (Inr (Some \<lparr>r3_Status = col_status row,
                           r3_Cid = (case col_cid row of None \<Rightarrow> '''' | Some v \<Rightarrow> v),
                           r3_ErrorMessage = (case col_error row of None \<Rightarrow> '''' | Some v \<Rightarrow> v)\<rparr>),
                d)
           | None \<Rightarrow>
               (case setFileStatusFound E d filePath of
                  (Some err, d') \<Rightarrow> (Inl err, d')
                | (None, d') \<Rightarrow>
                    (Inr (Some \<lparr>r3_Status = FileStatusFound, r3_Cid = '''',
                                r3_ErrorMessage = ''''\<rparr>), d'))))"

definition setFileStatusUploading_r3 ::
  "env \<Rightarrow> file_status_table \<Rightarrow> string \<Rightarrow> string option \<times> file_status_table" where
  "setFileStatusUploading_r3 E d filePath =
     exec_update E UpdateUploading d filePath
       (\<lambda>row. row\<lparr>col_status := FileStatusUploading, col_updated_at := time_Now E\<rparr>)"

definition proofmode_metadata_r3 :: "env \<Rightarrow> string \<Rightarrow> ProofModeAsset \<Rightarrow> metadata" where
  "proofmode_metadata_r3 E filePath asset =
     (let syncRoot = filepath_Clean E (SyncFolderRoot E);
          fileName = filepath_Base E (FilePath (Metadata asset));
          assetOrigin = filepath_Join E (TrimPrefix filePath syncRoot) (FilePath (Metadata asset))
      in [''file_name'' \<mapsto> MString fileName,
          ''last_modified'' \<mapsto> MString (FileModified (Metadata asset)),
          ''time_created'' \<mapsto> MString (FileCreated (Metadata asset)),
          ''asset_origin'' \<mapsto> MString assetOrigin,
          ''asset_signature'' \<mapsto> MString (EncodeToString (AssetSignature asset)),
          ''media_type'' \<mapsto> MString ''application/zip'',
          ''proofmode'' \<mapsto>
             MBytesMap [(''metadata'', MetadataBytes asset),
                        (''meta_sig'', MetadataSignature asset),
                        (''media_sig'', AssetSignature asset),
                        (''pubkey'', PubKey asset),
                        (''ots'', Ots asset),
                        (''gst'', Gst asset)]])"

definition getProofModeFileMetadatas_r3 :: "env \<Rightarrow> string \<Rightarrow> string + metadata list" where
  "getProofModeFileMetadatas_r3 E filePath =
     (case ReadAndVerifyProofModeMetadata E filePath of
        Inl err \<Rightarrow> Inl err
      | Inr assets \<Rightarrow> Inr (map (proofmode_metadata_r3 E filePath) assets))"

definition getWaczFileMetadata :: "env \<Rightarrow> string \<Rightarrow> string + metadata" where
  "getWaczFileMetadata E filePath =
     (case ReadAndVerifyWaczMetadata E filePath of
        Inl err \<Rightarrow> Inl err
      | Inr wm \<Rightarrow>
          let syncRoot = SyncFolderRoot E
          in Inr [''last_modified'' \<mapsto> MString (wacz_Modified wm),
                  ''time_created'' \<mapsto> MString (wacz_Created wm),
                  ''asset_origin'' \<mapsto> MString (TrimPrefix filePath syncRoot),
                  ''asset_signature'' \<mapsto> MString (EncodeToString (wacz_MetadataSignature wm)),
                  ''media_type'' \<mapsto> MString ''application/wacz'',
                  ''wacz'' \<mapsto>
                     MBytesMap [(''metadata'', wacz_MetadataBytes wm),
                                (''meta_sig'', wacz_MetadataSignature wm),
                                (''pubkey'', wacz_PubKey wm)]])"

text \<open>\<^verbatim>\<open>getFileMetadata\<close> of this revision reads the file's attributes and no content.\<close>

definition getFileMetadata_stat :: "env \<Rightarrow> string \<Rightarrow> string \<Rightarrow> string + metadata" where
  "getFileMetadata_stat E filePath mediaType =
     (case os_Open E AtGetFileMetadata filePath of
        Inl err \<Rightarrow> Inl err
      | Inr file \<Rightarrow>
     (case Stat file of
        Inl err \<Rightarrow> Inl err
      | Inr fileInfo \<Rightarrow>
          let syncRoot = filepath_Clean E (SyncFolderRoot E);
              assetOrigin = filepath_Clean E (TrimPrefix filePath syncRoot)
          in Inr [''media_type'' \<mapsto> MString mediaType,
                  ''asset_origin'' \<mapsto> MString assetOrigin,
                  ''file_name'' \<mapsto> MString (Name fileInfo),
                  ''last_modified'' \<mapsto> MString (Format_RFC3339_UTC E (ModTime fileInfo)),
                  ''time_created'' \<mapsto> MString (Format_RFC3339_UTC E (ModTime fileInfo))]))"

definition checkFileType_r3 :: "env \<Rightarrow> string \<Rightarrow> string + (string \<times> string)" where
  "checkFileType_r3 E filePath =
     (case os_Open E AtCheckFileType filePath of
        Inl err \<Rightarrow> Inl err
      | Inr file \<Rightarrow>
     (case file_Read file 512 of
        Inl err \<Rightarrow> Inl err
      | Inr buffer \<Rightarrow>
          let mediaType = DetectContentType E buffer;
              fileType1 =
                (if mediaType = ''application/zip'' \<and> CheckIsProofModeFile E filePath
                 then ''proofmode'' else ''generic'');
              fileType =
                (if mediaType = ''application/zip'' \<and> CheckIsWaczFile E filePath
                 then ''wacz'' else fileType1)
          in Inr (fileType, mediaType)))"

definition handleNewFile_r3_metadatas ::
  "env \<Rightarrow> state \<Rightarrow> string \<Rightarrow> string \<Rightarrow> string \<Rightarrow> (ret \<times> state) + (metadata list \<times> state)" where
  "handleNewFile_r3_metadatas E s filePath fileType mediaType =
     (if fileType = ''proofmode'' then
        (let s1 = log_event (EvVerifyProofMode filePath) s in
         case getProofModeFileMetadatas_r3 E filePath of
           Inl err \<Rightarrow>
             Inl (Ret '''' (Some (''error getting proofmode file metadatas: '' @ err)),
                  record_error E s1 filePath err)
         | Inr mds \<Rightarrow> Inr (mds, s1))
      else if fileType = ''wacz'' then
        (let s1 = log_event (EvGetFileMetadata filePath) s in
         case getFileMetadata_stat E filePath mediaType of
           Inl err \<Rightarrow>
             Inl (Ret '''' (Some (''error getting file metadata: '' @ err)),
                  record_error E s1 filePath err)
         | Inr fileMetadata \<Rightarrow>
             let s2 = log_event (EvVerifyWacz filePath) s1 in
             (case getWaczFileMetadata E filePath of
                Inl err \<Rightarrow>
                  Inl (Ret '''' (Some (''error getting wacz file metadatas: '' @ err)),
                       record_error E s2 filePath err)
              | Inr waczMetadata \<Rightarrow> Inr ([fileMetadata ++ waczMetadata], s2)))
      else if fileType = ''generic'' then
        (let s1 = log_event (EvGetFileMetadata filePath) s in
         case getFileMetadata_stat E filePath mediaType of
           Inl err \<Rightarrow>
             Inl (Ret '''' (Some (''error getting file metadata: '' @ err)),
                  record_error E s1 filePath err)
         | Inr md \<Rightarrow> Inr ([md], s1))
      else Inr ([], s))"

definition author_of_r3 :: "ProjectQueryResult_r3 \<Rightarrow> (string \<times> string) list" where
  "author_of_r3 pr =
     (if r3_AuthorType pr \<noteq> '''' then [(''@type'', r3_AuthorType pr)] else []) @
     (if r3_AuthorName pr \<noteq> '''' then [(''name'', r3_AuthorName pr)] else []) @
     (if r3_AuthorIdentifier pr \<noteq> '''' then [(''identifier'', r3_AuthorIdentifier pr)] else [])"

definition annotate_r3 :: "env \<Rightarrow> ProjectQueryResult_r3 \<Rightarrow> metadata \<Rightarrow> metadata" where
  "annotate_r3 E pr md =
     (let md1 = md(''project_id'' \<mapsto> MString (r3_ProjectId pr),
                   ''project_path'' \<mapsto> MString (filepath_Clean E (r3_ProjectPath pr)))
      in if r3_AuthorType pr \<noteq> '''' \<or> r3_AuthorName pr \<noteq> '''' \<or> r3_AuthorIdentifier pr \<noteq> ''''
         then md1(''author'' \<mapsto> MStringMap (author_of_r3 pr))
         else md1)"

text \<open>
  The \<^verbatim>\<open>else\<close> branch of the zip lookup in this revision evaluates \<^verbatim>\<open>err.Error()\<close> for
  the argument of \<^verbatim>\<open>setFileStatusError\<close>, where \<^verbatim>\<open>err\<close> is the error of
  \<^verbatim>\<open>GetProofModeZipFiles\<close>, which is \<^verbatim>\<open>nil\<close> there.
\<close>

definition missing_in_zip_r3 :: "state \<Rightarrow> string \<Rightarrow> ret \<times> state" where
  "missing_in_zip_r3 s fileName = (Panic NilDereference, s)"

text \<open>
  The second switch on the file type. Go's \<^verbatim>\<open>switch\<close> does not fall through: the case
  \<^verbatim>\<open>"wacz"\<close> has no statements, and control goes on to the Success transition.
\<close>

definition handleNewFile_r3_upload ::
  "env \<Rightarrow> state \<Rightarrow> string \<Rightarrow> string \<Rightarrow> metadata list \<Rightarrow> string \<Rightarrow> ret \<times> state" where
  "handleNewFile_r3_upload E s filePath fileType mds cid =
     (if fileType = ''proofmode''
        then upload_proofmode E missing_in_zip_r3 s filePath mds cid
      else if fileType = ''wacz'' then mark_done E s filePath cid cid
      else if fileType = ''generic'' then upload_generic E s filePath mds
      else mark_done E s filePath cid cid)"

definition handleNewFile_r3_rest ::
  "env \<Rightarrow> state \<Rightarrow> string \<Rightarrow> ProjectQueryResult_r3 \<Rightarrow> string \<Rightarrow> ret \<times> state" where
  "handleNewFile_r3_rest E s0 filePath pr cid =
     (let s = log_event (EvCheckFileType filePath) s0 in
      case checkFileType_r3 E filePath of
        Inl err \<Rightarrow>
          (Ret '''' (Some (''error checking file type for '' @ filePath @ '': '' @ err)),
           record_error E s filePath err)
      | Inr (fileType, mediaType) \<Rightarrow>
     (case handleNewFile_r3_metadatas E s filePath fileType mediaType of
        Inl out \<Rightarrow> out
      | Inr (mds0, s1) \<Rightarrow>
     (case setFileStatusUploading_r3 E (db s1) filePath of
        (Some err, d) \<Rightarrow>
          (Ret '''' (Some (''error setting file status to uploading: '' @ err)), s1\<lparr>db := d\<rparr>)
      | (None, d) \<Rightarrow>
          handleNewFile_r3_upload E (s1\<lparr>db := d\<rparr>) filePath fileType
            (map (annotate_r3 E pr) mds0) cid)))"

definition handleNewFile_r3 ::
  "env \<Rightarrow> state \<Rightarrow> string \<Rightarrow> ProjectQueryResult_r3 option \<Rightarrow> ret \<times> state" where
  "handleNewFile_r3 E s0 filePath project =
     (case project of
        None \<Rightarrow> (Panic NilDereference, s0)
      | Some pr \<Rightarrow>
          if length (r3_FileExtensions pr) > 0 \<and> Ext filePath \<notin> set (r3_FileExtensions pr)
          then (Ret '''' None, s0)
          else
            (case queryAndSetFoundFileStatus E (db s0) filePath of
               (Inl err, d) \<Rightarrow>
                 (Ret '''' (Some (''error checking if file exists in database: '' @ err)),
                  s0\<lparr>db := d\<rparr>)
             | (Inr result, d) \<Rightarrow>
                 let s = s0\<lparr>db := d\<rparr>;
                     status = (case result of None \<Rightarrow> '''' | Some r \<Rightarrow> r3_Status r);
                     errorMessage = (case result of None \<Rightarrow> '''' | Some r \<Rightarrow> r3_ErrorMessage r);
                     cid = (case result of None \<Rightarrow> '''' | Some r \<Rightarrow> r3_Cid r)
                 in if status = FileStatusUploading then handleNewFile_r3_rest E s filePath pr cid
                    else if status = FileStatusSuccess then (Ret cid None, s)
                    else if status = FileStatusError
                      then (Ret '''' (Some (''file '' @ filePath @ '' has error: '' @ errorMessage)), s)
                    else handleNewFile_r3_rest E s filePath pr cid))"

section \<open>A concrete environment\<close>

text \<open>
  The scenario of the specification: the sync root \<^verbatim>\<open>/data\<close> holds the 10-byte file
  \<^verbatim>\<open>note.txt\<close>, the allow-list is \<^verbatim>\<open>[".txt"]\<close>, no statement of the database fails, and
  the backend answers 200 with the content identifier \<^verbatim>\<open>bafy123\<close>. The library functions
  are stand-ins (the digests return their input); the theorems that use this
  environment are about the control flow and the table, and the general theorems hold
  for every environment.
\<close>

definition note_file :: os_file where
  "note_file =
     \<lparr>content = [0x68, 0x65, 0x6c, 0x6c, 0x6f, 0x20, 0x6e, 0x6f, 0x74, 0x65],
      read_fault = None,
      Stat = Inr \<lparr>Name = ''note.txt'', Size = 10, ModTime = 1000\<rparr>\<rparr>"

definition test_env :: env where
  \<open>test_env =
     \<lparr>SyncFolderRoot = ''/data'',
      FileExtensions = [''.txt''],
      Webhook_Host = ''localhost:8080'',
      Webhook_Jwt = '''',
      time_Now = 2000,
      db_fault = (\<lambda>st filePath. None),
      os_Open = (\<lambda>at filePath.
         if filePath = ''/data/note.txt'' then Inr note_file
         else Inl ''no such file or directory''),
      zip_OpenReader = (\<lambda>filePath. Inl ''zip: not a valid zip file''),
      CheckIsProofModeFile = (\<lambda>filePath. False),
      CheckIsWaczFile = (\<lambda>filePath. False),
      ReadAndVerifyProofModeMetadata = (\<lambda>filePath. Inl ''not a proofmode bundle''),
      ReadAndVerifyWaczMetadata = (\<lambda>filePath. Inl ''not a wacz archive''),
      GetProofModeZipFiles = (\<lambda>zipListing. Inr (map_of zipListing)),
      sha256_Sum = (\<lambda>bs. bs),
      md5_Sum = (\<lambda>bs. bs),
      blake3_Sum = (\<lambda>bs. bs),
      DetectContentType = (\<lambda>bs. ''text/plain; charset=utf-8''),
      mimetype_readLimit = 3072,
      mimetype_String = (\<lambda>bs. ''text/plain; charset=utf-8''),
      Format_RFC3339 = (\<lambda>t. ''1970-01-01T00:16:40Z''),
      Format_RFC3339_UTC = (\<lambda>t. ''1970-01-01T00:16:40Z''),
      filepath_Base = (\<lambda>path. path),
      filepath_Join = (\<lambda>dir path. dir @ ''/'' @ path),
      filepath_Clean = (\<lambda>path. path),
      url_Parse = (\<lambda>rawURL. Inr rawURL),
      http_NewRequest = (\<lambda>url. None),
      client_Do = (\<lambda>req. Inr \<lparr>StatusCode = 200, Body = ''{"cid":"bafy123"}''\<rparr>),
      json_scan = (\<lambda>body.
         if body = ''{"cid":"bafy123"}'' then Inr (JObject [(''cid'', JString ''bafy123'')])
         else if body = ''{"cid":"bafy123","error":"quota exceeded"}''
           then Inr (JObject [(''cid'', JString ''bafy123''),
                              (''error'', JString ''quota exceeded'')])
         else Inl ''unexpected end of JSON input''),
      PostFileToWebHook_by_path =
        (\<lambda>filePath md. Inr \<lparr>resp_Cid = ''bafy123'', resp_Error = None\<rparr>)\<rparr>\<close>

definition empty_state :: state where
  "empty_state = \<lparr>db = Map.empty, trace = []\<rparr>"

text \<open>A table in which \<^verbatim>\<open>/data/note.txt\<close> has reached a terminal status.\<close>

definition success_row :: file_status_row where
  "success_row =
     \<lparr>col_sha256 = Some ''68656c6c6f206e6f7465'', col_status = ''Success'', col_error = None,
      col_cid = Some ''bafy123'', col_created_at = 1000, col_updated_at = 1500\<rparr>"

definition error_row :: file_status_row where
  "error_row =
     \<lparr>col_sha256 = None, col_status = ''Error'', col_error = Some ''verification failed'',
      col_cid = None, col_created_at = 1000, col_updated_at = 1500\<rparr>"

definition success_state :: state where
  "success_state = \<lparr>db = [''/data/note.txt'' \<mapsto> success_row], trace = []\<rparr>"

definition error_state :: state where
  "error_state = \<lparr>db = [''/data/note.txt'' \<mapsto> error_row], trace = []\<rparr>"

text \<open>A project whose allow-list holds only \<^verbatim>\<open>.jpg\<close>, and one without an allow-list.\<close>

definition jpg_project :: ProjectQueryResult_r3 where
  "jpg_project =
     \<lparr>r3_ProjectId = ''p1'', r3_ProjectPath = ''/data'', r3_AuthorType = '''',
      r3_AuthorName = '''', r3_AuthorIdentifier = '''', r3_FileExtensions = [''.jpg'']\<rparr>"

definition open_project :: ProjectQueryResult_r3 where
  "open_project =
     \<lparr>r3_ProjectId = ''p1'', r3_ProjectPath = ''/data'', r3_AuthorType = '''',
      r3_AuthorName = '''', r3_AuthorIdentifier = '''', r3_FileExtensions = []\<rparr>"

text \<open>
  Variants of the environment: a zip file that the probes take for a signed bundle and
  whose verified asset list is empty; a zip file that the probes take for a web archive;
  a backend whose 200 response carries a content identifier and an error; a file of
  3073 bytes.
\<close>

definition empty_bundle_env :: env where
  "empty_bundle_env =
     test_env\<lparr>DetectContentType := (\<lambda>bs. ''application/zip''),
              CheckIsProofModeFile := (\<lambda>filePath. True),
              ReadAndVerifyProofModeMetadata := (\<lambda>filePath. Inr [])\<rparr>"

definition wacz_env :: env where
  "wacz_env =
     test_env\<lparr>DetectContentType := (\<lambda>bs. ''application/zip''),
              CheckIsWaczFile := (\<lambda>filePath. True),
              ReadAndVerifyWaczMetadata := (\<lambda>filePath.
                Inr \<lparr>wacz_Modified = ''2024-01-01T00:00:00Z'', wacz_Created = ''2024-01-01T00:00:00Z'',
                     wacz_MetadataBytes = [], wacz_MetadataSignature = [], wacz_PubKey = []\<rparr>)\<rparr>"

definition server_error_env :: env where
  \<open>server_error_env =
     test_env\<lparr>client_Do := (\<lambda>req.
                Inr \<lparr>StatusCode = 200, Body = ''{"cid":"bafy123","error":"quota exceeded"}''\<rparr>)\<rparr>\<close>



definition big_file :: os_file where
  "big_file =
     \<lparr>content = replicate 3073 0x61,
      read_fault = None,
      Stat = Inr \<lparr>Name = ''big.bin'', Size = 3073, ModTime = 1000\<rparr>\<rparr>"

definition big_file_env :: env where
  "big_file_env = test_env\<lparr>os_Open := (\<lambda>at filePath. Inr big_file)\<rparr>"

definition failing_backend_env :: env where
  "failing_backend_env = test_env\<lparr>client_Do := (\<lambda>req. Inr \<lparr>StatusCode = 500, Body = ''''\<rparr>)\<rparr>"

definition empty_reader :: reader where
  "empty_reader = \<lparr>content = [], read_fault = None\<rparr>"

definition no_opts :: PostGenericWebhookOpt where
  "no_opts = \<lparr>opt_Source = '''', opt_ProjectId = '''', opt_Format = ''''\<rparr>"

section \<open>Properties of the fingerprinter\<close>

text \<open>
  \<^verbatim>\<open>io.Copy\<close> into a \<^verbatim>\<open>MultiWriter\<close> leaves in every accumulator what it held,
  followed by the whole stream: each byte of the stream is written once to each
  accumulator, whatever the chunking.
\<close>

lemma io_Copy_loop_appends: "io_Copy_loop bs accs = map (\<lambda>acc. acc @ bs) accs"
proof (induction bs accs rule: io_Copy_loop.induct)
  case (1 bs accs)
  show ?case
  proof (cases "bs = []")
    case True
    then show ?thesis by (simp add: io_Copy_loop.simps [of "[]"])
  next
    case False
    have "io_Copy_loop bs accs =
            io_Copy_loop (drop 32768 bs) (MultiWriter_Write (take 32768 bs) accs)"
      using False by (subst io_Copy_loop.simps) simp
    also have "\<dots> = map (\<lambda>acc. acc @ drop 32768 bs) (MultiWriter_Write (take 32768 bs) accs)"
      using "1.IH" [OF False] .
    also have "\<dots> = map (\<lambda>acc. acc @ bs) accs"
      by (simp add: MultiWriter_Write_def)
    finally show ?thesis .
  qed
qed

lemma io_Copy_three:
  "io_Copy [[], [], []] f = ([deliverable f, deliverable f, deliverable f], stream_error f)"
  by (simp add: io_Copy_def io_Copy_loop_appends)

lemma hex_digit_in_table: "n < 16 \<Longrightarrow> hextable ! n \<in> set hextable"
  by (rule nth_mem) (simp add: hextable_def)

lemma hi_nibble_bound: "unat (drop_bit 4 (v :: byte)) < 16"
proof -
  have "unat v < 256" using unsigned_less [of v, where ?'a = nat] by simp
  then show ?thesis by (simp add: drop_bit_eq_div unat_div)
qed

lemma lo_nibble_bound: "unat ((v :: byte) AND 0x0f) < 16"
proof -
  have "unat (v AND 0x0f) \<le> unat (0x0f :: byte)"
    by (rule word_and_le1 [THEN word_le_nat_alt [THEN iffD1]])
  then show ?thesis by simp
qed

lemma hex_byte_lowercase: "set (hex_byte v) \<subseteq> set hextable"
  by (simp add: hex_byte_def hex_digit_in_table hi_nibble_bound lo_nibble_bound)

lemma EncodeToString_hextable: "set (EncodeToString src) \<subseteq> set hextable"
  using hex_byte_lowercase by (induction src) (simp_all add: EncodeToString_def)

lemma EncodeToString_lowercase: "set (EncodeToString src) \<subseteq> set ''0123456789abcdef''"
  using EncodeToString_hextable [of src] unfolding hextable_def .

lemma EncodeToString_length: "length (EncodeToString src) = 2 * length src"
  by (induction src) (simp_all add: EncodeToString_def hex_byte_def)

text \<open>
  The revision that copies the file into the accumulators fingerprints the whole file:
  for a file that opens and reads without error, the three digest fields are the
  lowercase hexadecimal digests of its entire content, and a read error gives an error
  and no metadata.
\<close>

lemma getFileMetadata_copy_whole_file:
  assumes "os_Open E AtGetFileMetadata filePath = Inr file"
    and "Stat file = Inr fileInfo"
    and "read_fault file = None"
  shows "\<exists>md. getFileMetadata_copy E filePath mediaType = Inr md \<and>
           md ''sha256'' = Some (MString (EncodeToString (sha256_Sum E (content file)))) \<and>
           md ''md5'' = Some (MString (EncodeToString (md5_Sum E (content file)))) \<and>
           md ''blake3'' = Some (MString (EncodeToString (blake3_Sum E (content file))))"
  using assms
  by (simp add: getFileMetadata_copy_def io_Copy_three deliverable_def stream_error_def)

lemma getFileMetadata_copy_read_error:
  assumes "os_Open E AtGetFileMetadata filePath = Inr file"
    and "Stat file = Inr fileInfo"
    and "read_fault file = Some (k, err)"
  shows "getFileMetadata_copy E filePath mediaType = Inl err"
  using assms
  by (simp add: getFileMetadata_copy_def io_Copy_three stream_error_def)

text \<open>
  C6 fails on \<^verbatim>\<open>getFileMetadata\<close> of preprocessor/folder/file.go: the accumulators
  sit behind \<^verbatim>\<open>io.TeeReader\<close>s whose only consumer is \<^verbatim>\<open>mimetype.DetectReader\<close>, so for a
  readable file longer than the sniffer's read limit the three digest fields are the
  digests of the first \<open>mimetype_readLimit\<close> bytes, which are not the file's content.
\<close>

theorem C6_tee_digests_cover_the_sniffed_prefix:
  assumes "os_Open E AtGetFileMetadata filePath = Inr file"
    and "Stat file = Inr fileInfo"
    and "read_fault file = None"
    and "0 < mimetype_readLimit E"
    and "mimetype_readLimit E < length (content file)"
  shows "\<exists>md. getFileMetadata_tee E filePath = Inr md \<and>
           md ''sha256'' =
             Some (MString (EncodeToString (sha256_Sum E (take (mimetype_readLimit E) (content file))))) \<and>
           md ''md5'' =
             Some (MString (EncodeToString (md5_Sum E (take (mimetype_readLimit E) (content file))))) \<and>
           md ''blake3'' =
             Some (MString (EncodeToString (blake3_Sum E (take (mimetype_readLimit E) (content file))))) \<and>
           take (mimetype_readLimit E) (content file) \<noteq> content file"
proof -
  have short: "take (mimetype_readLimit E) (content file) \<noteq> content file"
  proof
    assume "take (mimetype_readLimit E) (content file) = content file"
    then have "length (take (mimetype_readLimit E) (content file)) = length (content file)"
      by simp
    with assms(5) show False by simp
  qed
  have "DetectReader E file =
          (take (mimetype_readLimit E) (content file),
           Inr (mimetype_String E (take (mimetype_readLimit E) (content file))))"
    using assms(3,4,5) by (simp add: DetectReader_def deliverable_def Let_def)
  then show ?thesis
    using assms(1,2) short by (simp add: getFileMetadata_tee_def)
qed

theorem C6_tee_digests_cover_the_sniffed_prefix_witness:
  "os_Open big_file_env AtGetFileMetadata ''/data/big.bin'' = Inr big_file \<and>
   length (content big_file) = 3073 \<and> mimetype_readLimit big_file_env = 3072 \<and>
   (\<exists>md. getFileMetadata_tee big_file_env ''/data/big.bin'' = Inr md \<and>
      md ''sha256'' = Some (MString (EncodeToString (replicate 3072 0x61))))"
proof -
  have a: "os_Open big_file_env AtGetFileMetadata ''/data/big.bin'' = Inr big_file"
    by (simp add: big_file_env_def test_env_def)
  have b: "Stat big_file = Inr \<lparr>Name = ''big.bin'', Size = 3073, ModTime = 1000\<rparr>"
    by (simp add: big_file_def)
  have c: "read_fault big_file = None" by (simp add: big_file_def)
  have d: "mimetype_readLimit big_file_env = 3072" by (simp add: big_file_env_def test_env_def)
  have e: "length (content big_file) = 3073" by (simp add: big_file_def)
  have f: "sha256_Sum big_file_env (take 3072 (content big_file)) = replicate 3072 0x61"
    by (simp add: big_file_env_def test_env_def big_file_def)
  have h1: "0 < mimetype_readLimit big_file_env" by (simp add: d)
  have h2: "mimetype_readLimit big_file_env < length (content big_file)" by (simp add: d e)
  from C6_tee_digests_cover_the_sniffed_prefix [OF a b c h1 h2]
  obtain md where m: "getFileMetadata_tee big_file_env ''/data/big.bin'' = Inr md"
    and s: "md ''sha256'' =
       Some (MString (EncodeToString (sha256_Sum big_file_env
         (take (mimetype_readLimit big_file_env) (content big_file)))))"
    by (elim exE conjE)
  from s have "md ''sha256'' = Some (MString (EncodeToString (replicate 3072 0x61)))"
    by (simp only: d f)
  with m have "\<exists>md. getFileMetadata_tee big_file_env ''/data/big.bin'' = Inr md \<and>
      md ''sha256'' = Some (MString (EncodeToString (replicate 3072 0x61)))"
    by (intro exI [of _ md] conjI)
  with a e d show ?thesis by (intro conjI)
qed

section \<open>Properties of the webhook client\<close>

lemma fmt_d_500: "fmt_d 500 = ''500''"
  by code_simp

text \<open>
  C7: for every HTTP response that \<^verbatim>\<open>client.Do\<close> returns to \<^verbatim>\<open>PostFileToWebHook\<close>, a
  status of 400 or 404 yields the error \<^verbatim>\<open>bad request\<close>, any other status than 200 yields
  the error \<^verbatim>\<open>bad status code in response\<close> followed by the status code, and only a
  200 response is decoded, the result being what the JSON decoder returns.
\<close>

theorem C7_response_handling:
  assumes "webhook_request E file md opts = Inr req"
    and "client_Do E req = Inr resp"
  shows "PostFileToWebHook E file md opts =
           (if StatusCode resp = 400 \<or> StatusCode resp = 404 then Inl ''bad request''
            else if StatusCode resp \<noteq> 200
              then Inl (''bad status code in response: '' @ fmt_d (StatusCode resp))
            else json_Decode E (Body resp))"
  using assms by (simp add: PostFileToWebHook_def split: sum.split)

theorem C7_response_handling_witness:
  "PostFileToWebHook failing_backend_env empty_reader Map.empty no_opts =
     Inl ''bad status code in response: 500''"
proof -
  have a: "webhook_request failing_backend_env empty_reader Map.empty no_opts =
             Inr \<lparr>req_method = ''POST'', req_url = ''http://localhost:8080/generic'',
                  req_authorization = None, part_metadata_format = ''application/json'',
                  part_metadata = Map.empty, part_file = empty_reader\<rparr>"
    by (simp add: webhook_request_def failing_backend_env_def test_env_def no_opts_def)
  have b: "client_Do failing_backend_env
             \<lparr>req_method = ''POST'', req_url = ''http://localhost:8080/generic'',
              req_authorization = None, part_metadata_format = ''application/json'',
              part_metadata = Map.empty, part_file = empty_reader\<rparr> =
           Inr \<lparr>StatusCode = 500, Body = ''''\<rparr>"
    by (simp add: failing_backend_env_def test_env_def)
  show ?thesis
    using C7_response_handling [OF a b] by (simp add: fmt_d_500)
qed

section \<open>Properties of the pipeline\<close>

text \<open>
  Every statement that \<^verbatim>\<open>handleNewFile\<close> sends to the database is keyed by the path it
  was called with, so an invocation leaves the rows of all other paths as they were.
\<close>

lemmas store_defs =
  queryIfFileExists_def setFileStatusFound_def exec_update_def setFileStatusUploading_def
  setFileStatusDone_def setFileStatusError_def
  FileStatusFound_def FileStatusUploading_def FileStatusSuccess_def FileStatusError_def

lemma exec_update_other:
  "exec_update E st d filePath f = (err, d') \<Longrightarrow> p \<noteq> filePath \<Longrightarrow> d' p = d p"
  by (auto simp add: exec_update_def split: option.splits)

lemma setFileStatusFound_other:
  "setFileStatusFound E d filePath = (err, d') \<Longrightarrow> p \<noteq> filePath \<Longrightarrow> d' p = d p"
  by (auto simp add: setFileStatusFound_def split: option.splits)

lemma setFileStatusUploading_other:
  "setFileStatusUploading E d filePath sha = (err, d') \<Longrightarrow> p \<noteq> filePath \<Longrightarrow> d' p = d p"
  unfolding setFileStatusUploading_def by (rule exec_update_other)

lemma setFileStatusDone_other:
  "setFileStatusDone E d filePath cid = (err, d') \<Longrightarrow> p \<noteq> filePath \<Longrightarrow> d' p = d p"
  unfolding setFileStatusDone_def by (rule exec_update_other)

lemma setFileStatusError_other:
  "setFileStatusError E d filePath msg = (err, d') \<Longrightarrow> p \<noteq> filePath \<Longrightarrow> d' p = d p"
  unfolding setFileStatusError_def by (rule exec_update_other)

lemma db_log_event: "db (log_event ev s) = db s"
  by (simp add: log_event_def)

lemma record_error_other:
  "p \<noteq> filePath \<Longrightarrow> db (record_error E s filePath msg) p = db s p"
  using setFileStatusError_other [of E "db s" filePath msg _ _ p]
  by (cases "setFileStatusError E (db s) filePath msg") (simp add: record_error_def)

lemma mark_done_other:
  "mark_done E s filePath cid returned = (r, s') \<Longrightarrow> p \<noteq> filePath \<Longrightarrow> db s' p = db s p"
  by (auto simp add: mark_done_def split: prod.splits option.splits dest: setFileStatusDone_other)

lemma post_assets_other:
  assumes "p \<noteq> filePath"
    and "\<And>s0 fileName r0 s1. on_missing s0 fileName = (r0, s1) \<Longrightarrow> db s1 p = db s0 p"
  shows "post_assets E on_missing filePath fileMap mds s cid = Inl (r, s') \<Longrightarrow> db s' p = db s p"
    and "post_assets E on_missing filePath fileMap mds s cid = Inr (cid', s') \<Longrightarrow> db s' p = db s p"
proof (induction mds arbitrary: s cid)
  case Nil
  {
    case 1
    then show ?case by simp
  next
    case 2
    then show ?case by simp
  }
next
  case (Cons md mds)
  {
    case 1
    then show ?case
      using assms Cons.IH(1)
      by (auto simp add: Let_def record_error_other db_log_event
          split: sum.splits option.splits)
  next
    case 2
    then show ?case
      using assms Cons.IH(2)
      by (auto simp add: Let_def record_error_other db_log_event
          split: sum.splits option.splits)
  }
qed

lemma upload_proofmode_other:
  assumes "upload_proofmode E on_missing s filePath mds cid = (r, s')"
    and "p \<noteq> filePath"
    and "\<And>s0 fileName r0 s1. on_missing s0 fileName = (r0, s1) \<Longrightarrow> db s1 p = db s0 p"
  shows "db s' p = db s p"
  using assms(1,2) post_assets_other [OF assms(2,3)]
  by (auto simp add: upload_proofmode_def record_error_other
      split: sum.splits prod.splits dest: mark_done_other)

lemma upload_generic_other:
  "upload_generic E s filePath mds = (r, s') \<Longrightarrow> p \<noteq> filePath \<Longrightarrow> db s' p = db s p"
  by (auto simp add: upload_generic_def record_error_other db_log_event Let_def
      split: sum.splits list.splits dest: mark_done_other)

lemma missing_in_zip_r2_other:
  "missing_in_zip_r2 E filePath s fileName = (r, s') \<Longrightarrow> p \<noteq> filePath \<Longrightarrow> db s' p = db s p"
  by (auto simp add: missing_in_zip_r2_def record_error_other)

lemma handleNewFile_r2_upload_other:
  "handleNewFile_r2_upload E s filePath fileType mds cid = (r, s') \<Longrightarrow> p \<noteq> filePath \<Longrightarrow>
   db s' p = db s p"
  by (auto simp add: handleNewFile_r2_upload_def split: if_splits
      dest: upload_generic_other mark_done_other
      elim: upload_proofmode_other missing_in_zip_r2_other)

lemma handleNewFile_r2_metadatas_other:
  shows "handleNewFile_r2_metadatas E s filePath fileType mediaType = Inl (r, s') \<Longrightarrow>
           p \<noteq> filePath \<Longrightarrow> db s' p = db s p"
    and "handleNewFile_r2_metadatas E s filePath fileType mediaType = Inr (mds, s') \<Longrightarrow>
           db s' = db s"
  by (auto simp add: handleNewFile_r2_metadatas_def record_error_other db_log_event Let_def
      split: sum.splits if_splits)

lemma handleNewFile_r2_transition_other:
  "handleNewFile_r2_transition E s filePath project fileType mds0 cid = (r, s') \<Longrightarrow>
   p \<noteq> filePath \<Longrightarrow> db s' p = db s p"
  apply (auto simp add: handleNewFile_r2_transition_def
      split: sum.splits list.splits prod.splits option.splits
      dest: setFileStatusUploading_other)
   apply (frule (1) handleNewFile_r2_upload_other, frule (1) setFileStatusUploading_other, simp)+
  done

lemma handleNewFile_r2_rest_other:
  "handleNewFile_r2_rest E s filePath project cid = (r, s') \<Longrightarrow> p \<noteq> filePath \<Longrightarrow>
   db s' p = db s p"
  by (auto simp add: handleNewFile_r2_rest_def record_error_other db_log_event Let_def
      split: sum.splits prod.splits
      dest!: handleNewFile_r2_metadatas_other handleNewFile_r2_transition_other)

lemma handleNewFile_head_other:
  assumes "handleNewFile_head E s filePath rest = (r, s')"
    and "p \<noteq> filePath"
    and "\<And>s0 cid r0 s1. rest s0 cid = (r0, s1) \<Longrightarrow> db s1 p = db s0 p"
  shows "db s' p = db s p"
  using assms
  by (auto simp add: handleNewFile_head_def Let_def
      split: sum.splits prod.splits option.splits if_splits dest: setFileStatusFound_other)

lemma handleNewFile_r2_other:
  "p \<noteq> filePath \<Longrightarrow> db (snd (handleNewFile_r2 E s filePath project)) p = db s p"
  using handleNewFile_head_other [of E s filePath
      "\<lambda>s' cid. handleNewFile_r2_rest E s' filePath project cid" _ _ p]
    handleNewFile_r2_rest_other [of E _ filePath project _ _ _ p]
  by (cases "handleNewFile_r2 E s filePath project") (auto simp add: handleNewFile_r2_def)

text \<open>
  The switch on the stored status: a row in a terminal status ends the invocation before
  anything is written or called, and so does a failing query.
\<close>

lemma handleNewFile_head_success:
  assumes "db s filePath = Some row" and "col_status row = ''Success''"
    and "db_fault E SelectStatus filePath = None"
  shows "handleNewFile_head E s filePath rest =
           (Ret (case col_cid row of None \<Rightarrow> '''' | Some v \<Rightarrow> v) None, s)"
  using assms by (simp add: handleNewFile_head_def store_defs)

lemma handleNewFile_head_error:
  assumes "db s filePath = Some row" and "col_status row = ''Error''"
    and "db_fault E SelectStatus filePath = None"
  shows "handleNewFile_head E s filePath rest =
           (Ret '''' (Some (''file '' @ filePath @ '' has error: '' @
                (case col_error row of None \<Rightarrow> '''' | Some v \<Rightarrow> v))), s)"
  using assms by (simp add: handleNewFile_head_def store_defs)

lemma handleNewFile_head_query_fails:
  assumes "db_fault E SelectStatus filePath = Some err"
  shows "handleNewFile_head E s filePath rest =
           (Ret '''' (Some (''error checking if file exists in database: '' @ err)), s)"
  using assms by (simp add: handleNewFile_head_def queryIfFileExists_def)

lemma handleNewFile_head_terminal_state:
  assumes "db s filePath = Some row"
    and "col_status row = ''Success'' \<or> col_status row = ''Error''"
  shows "snd (handleNewFile_head E s filePath rest) = s"
proof (cases "db_fault E SelectStatus filePath")
  case None
  then show ?thesis
    using assms handleNewFile_head_success [of s filePath row E rest]
      handleNewFile_head_error [of s filePath row E rest] by auto
next
  case (Some err)
  then show ?thesis by (simp add: handleNewFile_head_query_fails)
qed

lemma handleNewFile_r2_keeps_terminal_row:
  assumes "db s p = Some row"
    and "col_status row = ''Success'' \<or> col_status row = ''Error''"
  shows "db (snd (handleNewFile_r2 E s filePath project)) p = Some row"
proof (cases "p = filePath")
  case True
  then show ?thesis
    using assms handleNewFile_head_terminal_state [of s filePath row E]
    by (simp add: handleNewFile_r2_def)
next
  case False
  then show ?thesis using assms(1) by (simp add: handleNewFile_r2_other)
qed

text \<open>
  The allow-list of the project, when it has one, is tested before the store is queried:
  a path whose extension it excludes ends the invocation with the empty string, no error
  and an unchanged state, in every environment and whatever the table holds.
\<close>

lemma handleNewFile_r3_excluded:
  assumes "r3_FileExtensions pr \<noteq> []"
    and "Ext filePath \<notin> set (r3_FileExtensions pr)"
  shows "handleNewFile_r3 E s filePath (Some pr) = (Ret '''' None, s)"
  using assms by (simp add: handleNewFile_r3_def)

text \<open>
  C2, as stated, fails on the revision with per-project allow-lists: the path
  \<^verbatim>\<open>/data/note.txt\<close> is stored as Success with the content identifier \<^verbatim>\<open>bafy123\<close>, the
  project's allow-list holds only \<^verbatim>\<open>.jpg\<close>, and \<^verbatim>\<open>handleNewFile\<close> returns the empty
  string before it queries the store.
\<close>

theorem C2_extension_gate_counterexample:
  "db success_state ''/data/note.txt'' = Some success_row \<and>
   col_status success_row = ''Success'' \<and> col_cid success_row = Some ''bafy123'' \<and>
   handleNewFile_r3 test_env success_state ''/data/note.txt'' (Some jpg_project) =
     (Ret '''' None, success_state)"
  by (simp add: success_state_def success_row_def handleNewFile_r3_def jpg_project_def Ext_def)

text \<open>
  C2, amended: for every path whose stored status is Success, when the query of the
  store does not fail and (in the revision with per-project allow-lists) the project
  has no allow-list or the path's extension is in it, \<^verbatim>\<open>handleNewFile\<close> returns the
  stored content identifier with no error and leaves the state as it was: the table is
  unchanged and no call to the classifier, the fingerprinter, the verifier or the
  uploader is logged. In that revision a path whose extension the project's allow-list
  excludes gets the empty string and no error, with the state as it was, whatever its
  stored status.
\<close>

theorem C2_success_short_circuit:
  assumes "db s filePath = Some row"
    and "col_status row = ''Success''"
    and "db_fault E SelectStatus filePath = None"
  shows "handleNewFile_r2 E s filePath project =
           (Ret (case col_cid row of None \<Rightarrow> '''' | Some v \<Rightarrow> v) None, s) \<and>
         handleNewFile_r3 E s filePath (Some pr) =
           (if r3_FileExtensions pr = [] \<or> Ext filePath \<in> set (r3_FileExtensions pr)
            then (Ret (case col_cid row of None \<Rightarrow> '''' | Some v \<Rightarrow> v) None, s)
            else (Ret '''' None, s)) \<and>
         (r3_FileExtensions pr' \<noteq> [] \<and> Ext filePath' \<notin> set (r3_FileExtensions pr') \<longrightarrow>
            handleNewFile_r3 E' s' filePath' (Some pr') = (Ret '''' None, s'))"
proof (intro conjI impI)
  show "handleNewFile_r2 E s filePath project =
          (Ret (case col_cid row of None \<Rightarrow> '''' | Some v \<Rightarrow> v) None, s)"
    using assms by (simp add: handleNewFile_r2_def handleNewFile_head_success)
  have q: "queryAndSetFoundFileStatus E (db s) filePath =
          (Inr (Some \<lparr>r3_Status = ''Success'',
                      r3_Cid = (case col_cid row of None \<Rightarrow> '''' | Some v \<Rightarrow> v),
                      r3_ErrorMessage = (case col_error row of None \<Rightarrow> '''' | Some v \<Rightarrow> v)\<rparr>),
           db s)"
    using assms by (simp add: queryAndSetFoundFileStatus_def)
  show "handleNewFile_r3 E s filePath (Some pr) =
           (if r3_FileExtensions pr = [] \<or> Ext filePath \<in> set (r3_FileExtensions pr)
            then (Ret (case col_cid row of None \<Rightarrow> '''' | Some v \<Rightarrow> v) None, s)
            else (Ret '''' None, s))"
  proof (cases "r3_FileExtensions pr = [] \<or> Ext filePath \<in> set (r3_FileExtensions pr)")
    case True
    then show ?thesis using q by (auto simp add: handleNewFile_r3_def store_defs)
  next
    case False
    then show ?thesis by (simp add: handleNewFile_r3_excluded)
  qed
  show "handleNewFile_r3 E' s' filePath' (Some pr') = (Ret '''' None, s')"
    if "r3_FileExtensions pr' \<noteq> [] \<and> Ext filePath' \<notin> set (r3_FileExtensions pr')"
    using that by (simp add: handleNewFile_r3_excluded)
qed

theorem C2_success_short_circuit_witness:
  "handleNewFile_r2 test_env success_state ''/data/note.txt'' None =
     (Ret ''bafy123'' None, success_state) \<and>
   handleNewFile_r3 test_env success_state ''/data/note.txt'' (Some open_project) =
     (Ret ''bafy123'' None, success_state) \<and>
   handleNewFile_r3 test_env error_state ''/data/note.txt'' (Some jpg_project) =
     (Ret '''' None, error_state)"
proof -
  have a: "db success_state ''/data/note.txt'' = Some success_row"
    by (simp add: success_state_def)
  have b: "col_status success_row = ''Success''" by (simp add: success_row_def)
  have c: "db_fault test_env SelectStatus ''/data/note.txt'' = None"
    by (simp add: test_env_def)
  have d: "r3_FileExtensions open_project = []" by (simp add: open_project_def)
  have e: "r3_FileExtensions jpg_project \<noteq> [] \<and>
           Ext ''/data/note.txt'' \<notin> set (r3_FileExtensions jpg_project)"
    by (simp add: jpg_project_def Ext_def)
  have f: "(case col_cid success_row of None \<Rightarrow> '''' | Some v \<Rightarrow> v) = ''bafy123''"
    by (simp add: success_row_def)
  from C2_success_short_circuit [OF a b c, where project = None and pr = open_project
      and pr' = jpg_project and filePath' = "''/data/note.txt''" and E' = test_env
      and s' = error_state]
  show ?thesis by (simp add: d e f)
qed



text \<open>
  C4: in every sequence of invocations of the pipeline, on any paths and in any
  environments, a row whose status is Success or Error stays as it is: an invocation on
  its own path ends at the switch on the status (or at a failing query), and an
  invocation on another path writes only that other path's row.
\<close>

theorem C4_terminal_status_is_never_overwritten:
  assumes "db s p = Some row"
    and "col_status row = ''Success'' \<or> col_status row = ''Error''"
  shows "db (run_r2 s invocations) p = Some row"
  using assms
proof (induction invocations arbitrary: s)
  case Nil
  then show ?case by simp
next
  case (Cons inv invocations)
  obtain E filePath project where inv: "inv = (E, filePath, project)"
    by (cases inv)
  have "db (snd (handleNewFile_r2 E s filePath project)) p = Some row"
    using Cons.prems by (rule handleNewFile_r2_keeps_terminal_row)
  then have "db (run_r2 (snd (handleNewFile_r2 E s filePath project)) invocations) p = Some row"
    using Cons.prems(2) by (rule Cons.IH)
  then show ?case by (simp add: inv)
qed

theorem C4_terminal_status_is_never_overwritten_witness:
  "db success_state ''/data/note.txt'' = Some success_row \<and>
   col_status success_row = ''Success'' \<and>
   db (run_r2 success_state
         [(test_env, ''/data/note.txt'', None), (server_error_env, ''/data/other.txt'', None),
          (test_env, ''/data/note.txt'', None)]) ''/data/note.txt'' = Some success_row"
proof -
  have a: "db success_state ''/data/note.txt'' = Some success_row"
    by (simp add: success_state_def)
  have b: "col_status success_row = ''Success''"
    by (simp add: success_row_def)
  then have c: "col_status success_row = ''Success'' \<or> col_status success_row = ''Error''"
    by (rule disjI1)
  from a b C4_terminal_status_is_never_overwritten [OF a c] show ?thesis
    by (intro conjI)
qed


text \<open>
  The invariant is the pipeline's and not the store's: the update behind
  \<^verbatim>\<open>setFileStatusDone\<close> has no condition on the current status, and applied directly to a
  row in status Error it overwrites the status.
\<close>

lemma setFileStatusDone_is_unguarded:
  "map_option col_status
     (snd (setFileStatusDone test_env (db error_state) ''/data/note.txt'' ''bafy123'')
        ''/data/note.txt'') = Some ''Success''"
  by (simp add: store_defs test_env_def error_state_def)

section \<open>Properties of the upload and of the transitions around it\<close>

lemmas eval_defs =
  handleNewFile_head_def handleNewFile_r2_rest_def handleNewFile_r2_metadatas_def
  handleNewFile_r2_transition_def handleNewFile_r2_upload_def upload_generic_def
  checkFileType_def file_Read_def getFileMetadata_copy_def io_Copy_three
  PostFileToWebHook_def webhook_request_def
  log_event_def record_error_def mark_done_def string_at_def stream_error_def deliverable_def
  store_defs Let_def

text \<open>
  C1 fails on the first revision with a status store. For a new path, a readable file and
  an uploader that returns the content identifier \<^verbatim>\<open>bafy123\<close>, \<^verbatim>\<open>handleNewFile\<close> returns
  \<^verbatim>\<open>bafy123\<close>, and the Success transition writes the local \<^verbatim>\<open>cid\<close>, which still holds what
  the query read before the upload: the empty string.
\<close>

theorem C1_stale_cid_is_written:
  "fst (handleNewFile_r1 test_env empty_state ''/data/note.txt'' None) = Ret ''bafy123'' None \<and>
   map_option col_status (db (snd (handleNewFile_r1 test_env empty_state ''/data/note.txt'' None))
      ''/data/note.txt'') = Some ''Success'' \<and>
   map_option col_cid (db (snd (handleNewFile_r1 test_env empty_state ''/data/note.txt'' None))
      ''/data/note.txt'') = Some (Some '''')"
  by (simp add: handleNewFile_r1_def handleNewFile_head_def handleNewFile_r1_upload_def
      getFileMetadata_readall_def store_defs test_env_def empty_state_def note_file_def
      log_event_def record_error_def mark_done_def string_at_def stream_error_def deliverable_def
      Let_def)

text \<open>
  The revision with web-archive bundles marks an archive as Success without any upload:
  the case \<^verbatim>\<open>"wacz"\<close> of the second switch is empty, no call to the uploader is logged, and
  the content identifier written is again what the query read.
\<close>

lemma wacz_success_without_upload:
  "fst (handleNewFile_r3 wacz_env empty_state ''/data/note.txt'' (Some open_project)) =
     Ret '''' None \<and>
   map_option col_status
     (db (snd (handleNewFile_r3 wacz_env empty_state ''/data/note.txt'' (Some open_project)))
        ''/data/note.txt'') = Some ''Success'' \<and>
   map_option col_cid
     (db (snd (handleNewFile_r3 wacz_env empty_state ''/data/note.txt'' (Some open_project)))
        ''/data/note.txt'') = Some (Some '''') \<and>
   trace (snd (handleNewFile_r3 wacz_env empty_state ''/data/note.txt'' (Some open_project))) =
     [EvCheckFileType ''/data/note.txt'', EvGetFileMetadata ''/data/note.txt'',
      EvVerifyWacz ''/data/note.txt'']"
  by (simp add: handleNewFile_r3_def handleNewFile_r3_rest_def handleNewFile_r3_metadatas_def
      handleNewFile_r3_upload_def checkFileType_r3_def file_Read_def getFileMetadata_stat_def
      getWaczFileMetadata_def queryAndSetFoundFileStatus_def setFileStatusUploading_r3_def
      store_defs wacz_env_def test_env_def empty_state_def note_file_def open_project_def
      log_event_def record_error_def mark_done_def stream_error_def deliverable_def Let_def)






lemma decode_member_no_error_field:
  "resp_Error (fst acc) = None \<Longrightarrow> resp_Error (fst (decode_member acc member)) = None"
  by (cases acc; cases member) (auto simp add: decode_member_def split: json.splits)

lemma foldl_decode_member_no_error_field:
  "resp_Error (fst acc) = None \<Longrightarrow> resp_Error (fst (foldl decode_member acc members)) = None"
  by (induction members arbitrary: acc) (simp_all add: decode_member_no_error_field)

lemma json_Unmarshal_no_error_field:
  "json_Unmarshal j = Inr value \<Longrightarrow> resp_Error value = None"
  using foldl_decode_member_no_error_field
    [of "(\<lparr>resp_Cid = '''', resp_Error = None\<rparr>, None)"]
  by (auto simp add: json_Unmarshal_def split: json.splits prod.splits option.splits
      dest!: arg_cong [where f = fst])

lemma PostFileToWebHook_no_error_field:
  "PostFileToWebHook E file md opts = Inr value \<Longrightarrow> resp_Error value = None"
  by (auto simp add: PostFileToWebHook_def json_Decode_def
      split: sum.splits if_splits dest: json_Unmarshal_no_error_field)



lemma post_assets_upload_error:
  assumes "string_at md ''file_name'' = Inr fileName"
    and "fileMap fileName = Some zipFile"
    and "zip_Open zipFile = Inr file"
    and "PostFileToWebHook E file md
           \<lparr>opt_Source = '''', opt_ProjectId = '''', opt_Format = ''cbor''\<rparr> = Inl err"
  shows "post_assets E on_missing filePath fileMap (md # mds) s cid =
           Inl (Ret '''' (Some (''error posting metadata for file '' @ filePath @ '': '' @ err)),
                record_error E (log_event (EvPostFileToWebHook filePath) s) filePath err)"
  using assms by (simp add: Let_def)



text \<open>
  The two backends of the concrete environment, from discovery to the final row: a 200
  response with an error member ends in Error with no content identifier, a clean 200
  response ends in Success with the identifier of the response.
\<close>

lemma server_error_end_to_end:
  "fst (handleNewFile_r2 server_error_env empty_state ''/data/note.txt'' None) =
     Ret '''' (Some (''error posting metadata for file /data/note.txt: '' @
       ''json: cannot unmarshal string into Go struct field '' @
       ''PostGenericWebhookResponse.error of type error'')) \<and>
   map_option col_status
     (db (snd (handleNewFile_r2 server_error_env empty_state ''/data/note.txt'' None))
        ''/data/note.txt'') = Some ''Error'' \<and>
   map_option col_cid
     (db (snd (handleNewFile_r2 server_error_env empty_state ''/data/note.txt'' None))
        ''/data/note.txt'') = Some None \<and>
   trace (snd (handleNewFile_r2 server_error_env empty_state ''/data/note.txt'' None)) =
     [EvCheckFileType ''/data/note.txt'', EvGetFileMetadata ''/data/note.txt'',
      EvPostFileToWebHook ''/data/note.txt'']"
  by (simp add: handleNewFile_r2_def eval_defs json_Decode_def json_Unmarshal_def
      decode_member_def names_field_def saveError_def field_type_error_def json_kind_def
      server_error_env_def test_env_def empty_state_def note_file_def)

lemma clean_upload_end_to_end:
  "fst (handleNewFile_r2 test_env empty_state ''/data/note.txt'' None) = Ret ''bafy123'' None \<and>
   map_option col_status
     (db (snd (handleNewFile_r2 test_env empty_state ''/data/note.txt'' None))
        ''/data/note.txt'') = Some ''Success'' \<and>
   map_option col_cid
     (db (snd (handleNewFile_r2 test_env empty_state ''/data/note.txt'' None))
        ''/data/note.txt'') = Some (Some ''bafy123'')"
  by (simp add: handleNewFile_r2_def eval_defs json_Decode_def json_Unmarshal_def
      decode_member_def names_field_def saveError_def
      test_env_def empty_state_def note_file_def)

text \<open>
  The out-of-range access \<^verbatim>\<open>metadatas[0]\<close> of the Uploading transition happens exactly
  when the metadata list is empty: neither the project annotation nor the upload that
  follows raises an index panic on a non-empty list.
\<close>

lemma mark_done_no_panic: "fst (mark_done E s filePath cid returned) \<noteq> Panic p"
  by (simp add: mark_done_def split: prod.split option.split)

lemma annotate_all_length: "annotate_all pr mds = Inr mds' \<Longrightarrow> length mds' = length mds"
  by (induction mds arbitrary: mds') (auto split: sum.splits)

lemma annotate_one_panic: "annotate_one pr md = Inl p \<Longrightarrow> p = NilDereference"
  by (auto simp add: annotate_one_def Let_def split: option.splits if_splits)

lemma annotate_all_panic: "annotate_all pr mds = Inl p \<Longrightarrow> p = NilDereference"
  by (induction mds) (auto split: sum.splits dest: annotate_one_panic)

lemma post_assets_no_index_panic:
  "post_assets E (missing_in_zip_r2 E filePath) filePath fileMap mds s cid = Inl (r, s') \<Longrightarrow>
   r \<noteq> Panic IndexOutOfRange"
  by (induction mds arbitrary: s cid)
    (auto simp add: Let_def string_at_def missing_in_zip_r2_def
      split: sum.splits option.splits mvalue.splits)

lemma upload_proofmode_no_index_panic:
  "fst (upload_proofmode E (missing_in_zip_r2 E filePath) s filePath mds cid) \<noteq> Panic IndexOutOfRange"
  using post_assets_no_index_panic [of E filePath _ mds s cid]
  by (auto simp add: upload_proofmode_def mark_done_no_panic split: sum.splits prod.splits)

lemma upload_generic_no_index_panic:
  "fst (upload_generic E s filePath (md # mds)) \<noteq> Panic IndexOutOfRange"
  by (simp add: upload_generic_def mark_done_no_panic Let_def split: sum.split)

lemma handleNewFile_r2_upload_no_index_panic:
  "fst (handleNewFile_r2_upload E s filePath fileType (md # mds) cid) \<noteq> Panic IndexOutOfRange"
  by (simp add: handleNewFile_r2_upload_def upload_proofmode_no_index_panic
      upload_generic_no_index_panic mark_done_no_panic)

lemma transition_index_panic_iff:
  "(fst (handleNewFile_r2_transition E s filePath project fileType mds0 cid) = Panic IndexOutOfRange)
     = (mds0 = [])"
proof (cases mds0)
  case Nil
  then show ?thesis by (simp add: handleNewFile_r2_transition_def split: option.split)
next
  case (Cons md mds)
  have "fst (handleNewFile_r2_transition E s filePath project fileType (md # mds) cid)
          \<noteq> Panic IndexOutOfRange"
    using handleNewFile_r2_upload_no_index_panic [of E _ filePath fileType _ _ cid]
    by (auto simp add: handleNewFile_r2_transition_def string_at_def
        simp del: annotate_all.simps
        split: sum.splits list.splits prod.splits option.splits mvalue.splits
        dest!: annotate_all_length annotate_all_panic)
  then show ?thesis using Cons by simp
qed

text \<open>
  C9: \<^verbatim>\<open>handleNewFile\<close> panics with an index out of range when the file is classified as
  a signed bundle and the verifier returns an empty asset list: the metadata list is
  then empty at \<^verbatim>\<open>metadatas[0]["sha256"].(string)\<close>. The Uploading transition raises that
  panic exactly on the empty metadata list.
\<close>

theorem C9_empty_bundle_panics:
  assumes "db s filePath = None"
    and "db_fault E SelectStatus filePath = None"
    and "db_fault E InsertFound filePath = None"
    and "checkFileType E filePath = Inr (''proofmode'', mediaType)"
    and "ReadAndVerifyProofModeMetadata E filePath = Inr []"
  shows "fst (handleNewFile_r2 E s filePath project) = Panic IndexOutOfRange \<and>
         (fst (handleNewFile_r2_transition E s' filePath project fileType mds0 cid) =
            Panic IndexOutOfRange) = (mds0 = [])"
proof
  have "handleNewFile_r2_transition E s0 filePath project ''proofmode'' [] [] =
          (Panic IndexOutOfRange, s0)" for s0
    by (simp add: handleNewFile_r2_transition_def split: option.split)
  then show "fst (handleNewFile_r2 E s filePath project) = Panic IndexOutOfRange"
    using assms
    by (simp add: handleNewFile_r2_def handleNewFile_head_def handleNewFile_r2_rest_def
        handleNewFile_r2_metadatas_def getProofModeFileMetadatas_def store_defs Let_def)
  show "(fst (handleNewFile_r2_transition E s' filePath project fileType mds0 cid) =
            Panic IndexOutOfRange) = (mds0 = [])"
    by (rule transition_index_panic_iff)
qed

theorem C9_empty_bundle_panics_witness:
  "checkFileType empty_bundle_env ''/data/note.txt'' = Inr (''proofmode'', ''application/zip'') \<and>
   ReadAndVerifyProofModeMetadata empty_bundle_env ''/data/note.txt'' = Inr [] \<and>
   fst (handleNewFile_r2 empty_bundle_env empty_state ''/data/note.txt'' None) =
     Panic IndexOutOfRange"
proof -
  have a: "db empty_state ''/data/note.txt'' = None" by (simp add: empty_state_def)
  have b: "db_fault empty_bundle_env SelectStatus ''/data/note.txt'' = None"
    by (simp add: empty_bundle_env_def test_env_def)
  have c: "db_fault empty_bundle_env InsertFound ''/data/note.txt'' = None"
    by (simp add: empty_bundle_env_def test_env_def)
  have d: "checkFileType empty_bundle_env ''/data/note.txt'' =
             Inr (''proofmode'', ''application/zip'')"
    by (simp add: checkFileType_def file_Read_def deliverable_def stream_error_def
        empty_bundle_env_def test_env_def note_file_def)
  have e: "ReadAndVerifyProofModeMetadata empty_bundle_env ''/data/note.txt'' = Inr []"
    by (simp add: empty_bundle_env_def test_env_def)
  from C9_empty_bundle_panics [OF a b c d e] d e show ?thesis by (intro conjI) simp_all
qed

lemma Ext_video: "Ext ''video.mp4'' = ''.mp4''"
  by (simp add: Ext_def)

text \<open>
  C5, as stated, fails on \<^verbatim>\<open>checkShouldIncludeFile\<close>: with no allow-list configured the
  file \<^verbatim>\<open>video.mp4\<close> is neither hidden nor in progress, the specification's filter accepts
  it, and the code rejects it.
\<close>

theorem C5_empty_allow_list_counterexample:
  "spec_inclusion_filter [] ''video.mp4'' = True \<and>
   checkShouldIncludeFile [] ''video.mp4'' = Inr False"
  by (simp add: spec_inclusion_filter_def checkShouldIncludeFile_def Ext_video)

text \<open>
  C5, amended: for every file with a non-empty name, \<^verbatim>\<open>checkShouldIncludeFile\<close> accepts
  it if and only if its name does not begin with \<^verbatim>\<open>.\<close>, its extension is not
  \<^verbatim>\<open>.partial\<close> and its extension is in the configured allow-list (so an empty allow-list
  accepts no file); \<^verbatim>\<open>shouldIncludeFile\<close> of the later revision accepts it if and only
  if the first two conditions hold.
\<close>

theorem C5_inclusion_filter:
  "checkShouldIncludeFile allowList (c # cs) =
     Inr (c \<noteq> CHR ''.'' \<and> Ext (c # cs) \<noteq> ''.partial'' \<and> Ext (c # cs) \<in> set allowList) \<and>
   shouldIncludeFile (c # cs) = Inr (c \<noteq> CHR ''.'' \<and> Ext (c # cs) \<noteq> ''.partial'')"
  by (simp add: checkShouldIncludeFile_def shouldIncludeFile_def Let_def)

text \<open>
  C10: the inclusion filter reads \<^verbatim>\<open>fileName[0]\<close> before anything else, so it returns a
  verdict exactly for the non-empty names; for the empty name the index is out of range,
  in both revisions of the filter.
\<close>

theorem C10_filter_total_iff_nonempty:
  "(checkShouldIncludeFile allowList fileName = Inl IndexOutOfRange) = (fileName = []) \<and>
   (shouldIncludeFile fileName = Inl IndexOutOfRange) = (fileName = []) \<and>
   (\<exists>b. checkShouldIncludeFile allowList (c # cs) = Inr b) \<and>
   (\<exists>b. shouldIncludeFile (c # cs) = Inr b)"
  by (cases fileName) (auto simp add: checkShouldIncludeFile_def shouldIncludeFile_def Let_def)

end
